theory Spec2Isabelle
  imports Complex_Main "HOL-Library.Log_Nat" "HOL-Library.AList" "HOL-Library.Sublist"
begin

section \<open>Python values\<close>

subsection \<open>Strings\<close>

text \<open>
  A Python \<^verbatim>\<open>str\<close> is modelled by its UTF-8 encoding, a \<^typ>\<open>string\<close> of bytes.
  The program only concatenates and compares strings, and UTF-8 encoding is injective
  and commutes with concatenation, so both operations agree with Python's. Bytes outside
  printable ASCII are written \<open>CHR 0x..\<close>.

  \<open>str_int\<close> is \<^verbatim>\<open>str(n)\<close> for an integer, as the f-strings
  \<^verbatim>\<open>f"Konwersacja {new_id}"\<close> and \<^verbatim>\<open>f"{new_id}.json"\<close> use it.
\<close>

definition digit_char :: "nat \<Rightarrow> char" where
  "digit_char d = ''0123456789'' ! d"

fun str_nat :: "nat \<Rightarrow> string" where
  "str_nat n = (if n < 10 then [digit_char n] else str_nat (n div 10) @ [digit_char (n mod 10)])"

declare str_nat.simps [simp del]

definition str_int :: "int \<Rightarrow> string" where
  "str_int i = (if i < 0 then CHR ''-'' # str_nat (nat (- i)) else str_nat (nat i))"

subsection \<open>Floats\<close>

text \<open>
  A Python \<^verbatim>\<open>float\<close> is an IEEE 754 binary64 number. A finite float is modelled by
  the rational number it denotes, and every arithmetic operation rounds its exact result
  to the nearest number with a 53-bit significand, ties to even (\<open>rnd\<close>), as the
  hardware does. The exponent range is not bounded: overflow to infinity, NaN and
  subnormal numbers are outside the model (the prices and times of this program are far
  from both ends of the range).

  \<open>ilog2 x\<close> is the binary exponent of a positive \<open>x\<close>: \<open>2 powi ilog2 x \<le> x < 2 powi (ilog2 x + 1)\<close>.
  \<open>rne\<close> rounds a rational to the nearest integer, ties to even.
\<close>

type_synonym pyfloat = rat

definition ilog2 :: "rat \<Rightarrow> int" where
  "ilog2 x = (let (a, b) = quotient_of x; d = bitlen a - bitlen b
              in if 2 powi d \<le> x then d else d - 1)"

definition rne :: "rat \<Rightarrow> int" where
  "rne q = (let f = \<lfloor>q\<rfloor>; r = q - of_int f
            in if r < 1 / 2 then f else if 1 / 2 < r then f + 1
               else if even f then f else f + 1)"

definition rnd_pos :: "rat \<Rightarrow> rat" where
  "rnd_pos x = (let q = 2 powi (ilog2 x - 52) in of_int (rne (x / q)) * q)"

definition rnd :: "rat \<Rightarrow> pyfloat" where
  "rnd x = (if x = 0 then 0 else if 0 < x then rnd_pos x else - rnd_pos (- x))"

definition fadd :: "pyfloat \<Rightarrow> pyfloat \<Rightarrow> pyfloat" where
  "fadd x y = rnd (x + y)"

definition fmul :: "pyfloat \<Rightarrow> pyfloat \<Rightarrow> pyfloat" where
  "fmul x y = rnd (x * y)"

definition fdiv :: "pyfloat \<Rightarrow> pyfloat \<Rightarrow> pyfloat" where
  "fdiv x y = rnd (x / y)"

text \<open>\<open>float_of_int n\<close> is the conversion Python applies to an \<^verbatim>\<open>int\<close> operand of a
  mixed \<^verbatim>\<open>int * float\<close> or \<^verbatim>\<open>float + int\<close> operation; \<open>float_lit\<close> is the value
  of a decimal literal such as \<^verbatim>\<open>0.05\<close>.\<close>

definition float_of_int :: "int \<Rightarrow> pyfloat" where
  "float_of_int n = rnd (of_int n)"

definition float_lit :: "rat \<Rightarrow> pyfloat" where
  "float_lit x = rnd x"

definition is_float :: "rat \<Rightarrow> bool" where
  "is_float x \<longleftrightarrow> rnd x = x"

section \<open>Configuration and constants\<close>

record pricing =
  opis_modelu :: string
  input_tokens :: pyfloat
  output_tokens :: pyfloat

definition opis_suffix :: string where
  "opis_suffix =
    ''. Potrafi przetwarza'' @
    [CHR 0xC4, CHR 0x87] @ '' obrazy i tekst, ale nie jest dost'' @
    [CHR 0xC4, CHR 0x99] @ ''pny w wersji audio.''"

definition nano_pricing :: pricing where
  "nano_pricing =
     \<lparr>opis_modelu = ''Klasyfikacja, podsumowania'' @ opis_suffix,
      input_tokens = fdiv (float_lit (5 / 100)) (float_of_int 1000000),
      output_tokens = fdiv (float_lit (40 / 100)) (float_of_int 1000000)\<rparr>"

definition mini_pricing :: pricing where
  "mini_pricing =
     \<lparr>opis_modelu = ''Workflow, szybkie zadania'' @ opis_suffix,
      input_tokens = fdiv (float_lit (25 / 100)) (float_of_int 1000000),
      output_tokens = fdiv (float_lit 2) (float_of_int 1000000)\<rparr>"

definition gpt5_pricing :: pricing where
  "gpt5_pricing =
     \<lparr>opis_modelu = ''Programowanie, skomplikowane zadania'' @ opis_suffix,
      input_tokens = fdiv (float_lit (125 / 100)) (float_of_int 1000000),
      output_tokens = fdiv (float_lit 10) (float_of_int 1000000)\<rparr>"

definition MODEL_PRICING :: "(string \<times> pricing) list" where
  "MODEL_PRICING =
     [(''gpt-5-nano'', nano_pricing), (''gpt-5-mini'', mini_pricing), (''gpt-5'', gpt5_pricing)]"

definition DEFAULT_PERSONALITY :: string where
  "DEFAULT_PERSONALITY =
    ''Jeste'' @ [CHR 0xC5, CHR 0x9B] @ '' pomocnym asystentem AI, kt'' @
    [CHR 0xC3, CHR 0xB3] @ ''ry odpowiada na pytania u'' @
    [CHR 0xC5, CHR 0xBC] @ ''ytkownika w spos'' @ [CHR 0xC3, CHR 0xB3] @
    ''b:'' @ [CHR 0x0A] @ ''- Zwi'' @ [CHR 0xC4, CHR 0x99] @ ''z'' @
    [CHR 0xC5, CHR 0x82] @ ''y i zrozumia'' @ [CHR 0xC5, CHR 0x82] @ ''y'' @
    [CHR 0x0A] @ ''- Merytoryczny i dok'' @ [CHR 0xC5, CHR 0x82] @ ''adny'' @
    [CHR 0x0A] @ ''- Przyjazny i profesjonalny'' @ [CHR 0x0A] @
    ''- Dostosowany do kontekstu rozmowy'' @ [CHR 0x0A, CHR 0x0A] @ ''Je'' @
    [CHR 0xC5, CHR 0x9B] @
    ''li otrzymasz dokument do analizy, przeanalizuj go dok'' @
    [CHR 0xC5, CHR 0x82] @ ''adnie i odpowiedz na pytania na jego podstawie.''"

text \<open>The string literals of \<^verbatim>\<open>chatbot_reply\<close>: the notice appended to a truncated
  answer, the two halves of the error answer around \<^verbatim>\<open>str(e)\<close>, the prefix of the
  retained error message and the preamble put before an attached document.\<close>

definition truncation_notice :: string where
  "truncation_notice =
    [CHR 0x0A, CHR 0x0A, CHR 0xE2, CHR 0x9A, CHR 0xA0, CHR 0xEF, CHR 0xB8, CHR 0x8F] @
    '' **Odpowied'' @ [CHR 0xC5, CHR 0xBA] @ '' zosta'' @
    [CHR 0xC5, CHR 0x82] @ ''a obci'' @ [CHR 0xC4, CHR 0x99] @
    ''ta** - osi'' @ [CHR 0xC4, CHR 0x85] @ ''gni'' @ [CHR 0xC4, CHR 0x99] @
    ''to limit token'' @ [CHR 0xC3, CHR 0xB3] @ ''w. Zwi'' @
    [CHR 0xC4, CHR 0x99] @ ''ksz '' @ [CHR 0x60] @
    ''max_completion_tokens'' @ [CHR 0x60] @ '' aby uzyska'' @
    [CHR 0xC4, CHR 0x87] @ '' pe'' @ [CHR 0xC5, CHR 0x82] @ ''n'' @
    [CHR 0xC4, CHR 0x85] @ '' odpowied'' @ [CHR 0xC5, CHR 0xBA] @ ''.''"

definition error_prefix :: string where
  "error_prefix =
    ''Przepraszam, wyst'' @ [CHR 0xC4, CHR 0x85] @ ''pi'' @
    [CHR 0xC5, CHR 0x82] @ '' b'' @
    [CHR 0xC5, CHR 0x82, CHR 0xC4, CHR 0x85] @
    ''d podczas generowania odpowiedzi.'' @ [CHR 0x0A, CHR 0x0A] @
    ''**Szczeg'' @ [CHR 0xC3, CHR 0xB3, CHR 0xC5, CHR 0x82] @ ''y b'' @
    [CHR 0xC5, CHR 0x82, CHR 0xC4, CHR 0x99] @ ''du:**'' @ [CHR 0x0A]"

definition error_suffix :: string where
  "error_suffix =
    [CHR 0x0A, CHR 0x0A] @ ''Spr'' @ [CHR 0xC3, CHR 0xB3] @
    ''buj ponownie lub sprawd'' @ [CHR 0xC5, CHR 0xBA] @ '' ustawienia.''"

definition banner_prefix :: string where
  "banner_prefix =
    [CHR 0xE2, CHR 0x9D, CHR 0x8C] @ '' B'' @
    [CHR 0xC5, CHR 0x82, CHR 0xC4, CHR 0x85] @ ''d API OpenAI: ''"

definition document_preamble :: string where
  "document_preamble =
    [CHR 0x0A, CHR 0x0A] @ ''Otrzyma'' @ [CHR 0xC5, CHR 0x82] @ ''e'' @
    [CHR 0xC5, CHR 0x9B] @ '' r'' @ [CHR 0xC3, CHR 0xB3] @ ''wnie'' @
    [CHR 0xC5, CHR 0xBC] @ '' nast'' @ [CHR 0xC4, CHR 0x99] @ ''puj'' @
    [CHR 0xC4, CHR 0x85] @ ''cy dokument do analizy:'' @ [CHR 0x0A, CHR 0x0A]"

section \<open>Messages and the cost of a conversation\<close>

text \<open>
  A message is the dictionary \<^verbatim>\<open>{"role", "content", "usage"?}\<close>. The keys
  \<^verbatim>\<open>role\<close> and \<^verbatim>\<open>content\<close> are always there; \<open>usage = None\<close> says that the
  key \<^verbatim>\<open>usage\<close> is absent. The usage dictionary is read with
  \<^verbatim>\<open>usage.get(key, 0)\<close>, so each of its keys may be absent too: the empty
  dictionary \<^verbatim>\<open>{}\<close> is \<open>empty_usage\<close>.
\<close>

record usage_info =
  prompt_tokens :: "int option"
  completion_tokens :: "int option"
  total_tokens :: "int option"
  response_time :: "pyfloat option"

record message =
  role :: string
  content :: string
  usage :: "usage_info option"

definition empty_usage :: usage_info where
  "empty_usage = \<lparr>prompt_tokens = None, completion_tokens = None,
                   total_tokens = None, response_time = None\<rparr>"

text \<open>\<^verbatim>\<open>usage.get(key, 0)\<close> for a token count, and for the response time (where the
  default is the integer 0, converted to a float by the addition).\<close>

definition get_tokens :: "int option \<Rightarrow> int" where
  "get_tokens v = (case v of None \<Rightarrow> 0 | Some n \<Rightarrow> n)"

definition get_time :: "pyfloat option \<Rightarrow> pyfloat" where
  "get_time v = (case v of None \<Rightarrow> float_of_int 0 | Some t \<Rightarrow> t)"

text \<open>One iteration of the loop of \<^verbatim>\<open>calculate_conversation_cost\<close> on the two
  accumulators \<^verbatim>\<open>(total_cost, total_time)\<close>.\<close>

definition cost_step :: "pricing \<Rightarrow> pyfloat \<times> pyfloat \<Rightarrow> message \<Rightarrow> pyfloat \<times> pyfloat" where
  "cost_step pricing acc message =
     (case usage message of
        None \<Rightarrow> acc
      | Some u \<Rightarrow>
          (fadd (fst acc)
             (fadd (fmul (float_of_int (get_tokens (prompt_tokens u))) (input_tokens pricing))
                   (fmul (float_of_int (get_tokens (completion_tokens u))) (output_tokens pricing))),
           fadd (snd acc) (get_time (response_time u))))"

fun cost_loop :: "pricing \<Rightarrow> message list \<Rightarrow> pyfloat \<times> pyfloat \<Rightarrow> pyfloat \<times> pyfloat" where
  "cost_loop pricing [] acc = acc"
| "cost_loop pricing (message # rest) acc = cost_loop pricing rest (cost_step pricing acc message)"

definition calculate_conversation_cost :: "message list \<Rightarrow> pricing \<Rightarrow> pyfloat \<times> pyfloat" where
  "calculate_conversation_cost messages pricing = cost_loop pricing messages (0, 0)"

section \<open>Session state\<close>

text \<open>
  \<^verbatim>\<open>st.session_state\<close> is a dictionary; a key that is not set is \<open>None\<close>.
  \<^verbatim>\<open>selected_model\<close> is set by the sidebar on every run before the chat is rendered.
\<close>

record session_state =
  conversation_id :: "int option"
  conversation_name :: "string option"
  messages :: "message list option"
  chatbot_personality :: "string option"
  error_message :: "string option"
  selected_model :: string

section \<open>Chatbot\<close>

text \<open>
  The request sent to the model client, and what the client gives back. The client is
  outside the program: it is a parameter \<open>client\<close> of \<open>chatbot_reply\<close>, which either
  raises an exception (\<open>Raises s\<close>, with \<open>s\<close> the text \<^verbatim>\<open>str(e)\<close>) or returns a
  response object. \<^verbatim>\<open>response.usage\<close>, \<^verbatim>\<open>finish_reason\<close> and
  \<^verbatim>\<open>message.content\<close> may be \<^verbatim>\<open>None\<close>, and \<^verbatim>\<open>response.choices\<close> may be
  empty. The wall-clock time measured around the call is the parameter \<open>elapsed\<close>.
\<close>

record request =
  model :: string
  request_messages :: "message list"
  temperature :: int
  max_completion_tokens :: int

record api_usage =
  api_prompt_tokens :: int
  api_completion_tokens :: int
  api_total_tokens :: int

record choice =
  finish_reason :: "string option"
  message_content :: "string option"

record response =
  response_usage :: "api_usage option"
  choices :: "choice list"

datatype client_outcome = Raises string | Responds response

text \<open>The messages of the request: the system message (the personality, with the
  attached document when \<^verbatim>\<open>file_content\<close> is a non-empty string), the history with
  its roles and contents only, and the user's prompt.\<close>

definition system_content :: "session_state \<Rightarrow> string option \<Rightarrow> string" where
  "system_content ss file_content =
     (let personality = (case chatbot_personality ss of None \<Rightarrow> DEFAULT_PERSONALITY | Some p \<Rightarrow> p)
      in case file_content of
           None \<Rightarrow> personality
         | Some text \<Rightarrow> if text = [] then personality else personality @ document_preamble @ text)"

definition build_messages :: "session_state \<Rightarrow> string \<Rightarrow> message list \<Rightarrow> string option \<Rightarrow> message list" where
  "build_messages ss user_prompt memory file_content =
     [\<lparr>role = ''system'', content = system_content ss file_content, usage = None\<rparr>]
     @ map (\<lambda>m. \<lparr>role = role m, content = content m, usage = None\<rparr>) memory
     @ [\<lparr>role = ''user'', content = user_prompt, usage = None\<rparr>]"

text \<open>The \<^verbatim>\<open>except Exception as e\<close> branch: the error is kept in the session for the
  banner, and the answer is the error text with an empty usage dictionary.\<close>

definition reply_error :: "string \<Rightarrow> session_state \<Rightarrow> message \<times> session_state" where
  "reply_error e ss =
     (\<lparr>role = ''assistant'', content = error_prefix @ e @ error_suffix, usage = Some empty_usage\<rparr>,
      ss\<lparr>error_message := Some (banner_prefix @ e)\<rparr>)"

definition build_request :: "session_state \<Rightarrow> string \<Rightarrow> message list \<Rightarrow> string option \<Rightarrow> request" where
  "build_request ss user_prompt memory file_content =
     \<lparr>model = selected_model ss,
      request_messages = build_messages ss user_prompt memory file_content,
      temperature = 1, max_completion_tokens = 1000\<rparr>"

definition chatbot_reply ::
  "(request \<Rightarrow> client_outcome) \<Rightarrow> pyfloat \<Rightarrow> session_state \<Rightarrow>
   string \<Rightarrow> message list \<Rightarrow> string option \<Rightarrow> message \<times> session_state" where
  "chatbot_reply client elapsed ss user_prompt memory file_content =
     (case client (build_request ss user_prompt memory file_content) of
        Raises e \<Rightarrow> reply_error e ss
      | Responds r \<Rightarrow>
          (let usage_dict =
                 (case response_usage r of
                    None \<Rightarrow> empty_usage
                  | Some u \<Rightarrow> \<lparr>prompt_tokens = Some (api_prompt_tokens u),
                               completion_tokens = Some (api_completion_tokens u),
                               total_tokens = Some (api_total_tokens u),
                               response_time = Some elapsed\<rparr>)
           in case choices r of
                [] \<Rightarrow> reply_error ''list index out of range'' ss
              | c # _ \<Rightarrow>
                  (let content0 = (case message_content c of None \<Rightarrow> [] | Some t \<Rightarrow> t);
                       content1 = (if finish_reason c = Some ''length''
                                   then content0 @ truncation_notice else content0)
                   in (\<lparr>role = ''assistant'', content = content1, usage = Some usage_dict\<rparr>, ss))))"

section \<open>The conversation store\<close>

text \<open>
  The store is the directory \<^verbatim>\<open>db\<close>, with the file \<^verbatim>\<open>current.json\<close> and the
  directory \<^verbatim>\<open>db/conversations\<close> of files \<^verbatim>\<open>*.json\<close>.

  A file is what \<^verbatim>\<open>open(path, "r", encoding="utf-8")\<close> and \<^verbatim>\<open>json.load\<close> make
  of it: \<open>Undecodable\<close> when its bytes are not UTF-8 text, so that reading raises
  \<^verbatim>\<open>UnicodeDecodeError\<close>; \<open>Malformed\<close> when its text is not JSON, so that
  \<^verbatim>\<open>json.load\<close> raises \<^verbatim>\<open>JSONDecodeError\<close>; \<open>Decoded d\<close> when it returns the
  dictionary \<open>d\<close>. A conversation dictionary has the keys \<^verbatim>\<open>id\<close>, \<^verbatim>\<open>name\<close>,
  \<^verbatim>\<open>chatbot_personality\<close> and \<^verbatim>\<open>messages\<close>, each of which may be absent
  (\<open>None\<close>) in a file the program did not write; the pointer dictionary has the key
  \<^verbatim>\<open>current_conversation_id\<close>. Values of another JSON type than the program writes
  are outside the model.

  A file of \<^verbatim>\<open>db/conversations\<close> is named by its stem: \<open>Canon n\<close> is the file
  \<^verbatim>\<open>f"{n}.json"\<close> that the program reads and writes for the id \<open>n\<close>;
  \<open>Alias s n\<close> is a file with another stem \<open>s\<close> that \<^verbatim>\<open>int(stem)\<close> also accepts,
  with value \<open>n\<close> (such as \<^verbatim>\<open>007.json\<close>); \<open>NonInt s\<close> is a file on whose stem
  \<^verbatim>\<open>int(stem)\<close> raises \<^verbatim>\<open>ValueError\<close>. The directory is an association list
  in the order in which \<^verbatim>\<open>glob\<close> yields the files.
\<close>

datatype py_error =
  JSONDecodeError | UnicodeDecodeError | KeyError string | FileNotFoundError | OSError

datatype 'a json_file = Undecodable | Malformed | Decoded 'a

datatype stem = Canon int | Alias string int | NonInt string

record conversation =
  conv_id :: "int option"
  conv_name :: "string option"
  conv_chatbot_personality :: "string option"
  conv_messages :: "message list option"

record listing =
  listing_id :: int
  listing_name :: string
  message_count :: nat

record db_dir =
  current_json :: "int option json_file option"
  conversations_dir :: "(stem \<times> conversation json_file) list option"

text \<open>
  The world of the program: the directory \<^verbatim>\<open>db\<close> (\<open>None\<close> when it does not
  exist), the session state, and the behaviour of the disk: \<open>write_fault = Some (n, c)\<close>
  says that \<open>n\<close> more file writes complete and the next one fails partway, with
  \<^verbatim>\<open>OSError\<close>, leaving a proper prefix of the bytes that ends where \<open>c\<close> says:
  between two characters of the text, or inside the UTF-8 encoding of a character
  outside ASCII. \<open>None\<close> says that no write fails.
\<close>

datatype cut = InsideText | InsideChar

record world =
  db :: "db_dir option"
  write_fault :: "(nat \<times> cut) option"
  session :: session_state

text \<open>How a call ends: it returns, it ends the script run with \<^verbatim>\<open>st.rerun()\<close>, or it
  raises. The world is returned in each case, since what was written stays written.\<close>

datatype outcome = Returned | Rerun | Raised py_error

definition and_then ::
  "py_error option \<times> world \<Rightarrow> (world \<Rightarrow> outcome \<times> world) \<Rightarrow> outcome \<times> world" where
  "and_then r k = (case r of (Some e, w) \<Rightarrow> (Raised e, w) | (None, w) \<Rightarrow> k w)"

subsection \<open>Files\<close>

text \<open>\<^verbatim>\<open>DB_CONVERSATIONS_PATH.glob("*.json")\<close>, which yields nothing when the directory
  does not exist.\<close>

definition conversation_files :: "world \<Rightarrow> (stem \<times> conversation json_file) list" where
  "conversation_files w =
     (case db w of
        None \<Rightarrow> []
      | Some d \<Rightarrow> (case conversations_dir d of None \<Rightarrow> [] | Some fs \<Rightarrow> fs))"

text \<open>The content of a conversation file; \<open>None\<close> when \<^verbatim>\<open>exists()\<close> is false.\<close>

definition read_conversation_file :: "world \<Rightarrow> stem \<Rightarrow> conversation json_file option" where
  "read_conversation_file w k = map_of (conversation_files w) k"

definition current_file :: "world \<Rightarrow> int option json_file option" where
  "current_file w = (case db w of None \<Rightarrow> None | Some d \<Rightarrow> current_json d)"

text \<open>
  \<^verbatim>\<open>with open(path, "w", encoding="utf-8") as f: json.dump(obj, f, ...)\<close>. Opening for
  writing needs the directory and truncates the file, and \<^verbatim>\<open>json.dump\<close> then writes
  the text. \<open>dump_step\<close> says whether this write is the one that fails, and where it is
  cut.

  When the write fails partway the file holds a proper prefix of the bytes of a JSON
  object. A prefix that ends between two characters is text that is not valid JSON
  (\<open>Malformed\<close>). A conversation is written with \<^verbatim>\<open>ensure_ascii=False\<close>, so the
  characters outside ASCII of its name, its personality and its messages are written as
  UTF-8 sequences of several bytes, all of them \<open>\<ge> 0x80\<close>: a prefix that ends inside one
  of them is not UTF-8 text (\<open>Undecodable\<close>), and there is such a prefix exactly when the
  conversation has such a character (\<open>non_ascii_text\<close>). The pointer is written with the
  default \<^verbatim>\<open>ensure_ascii=True\<close>: its text is ASCII, and every prefix of it is text.
\<close>

definition dump_step :: "world \<Rightarrow> cut option \<times> world" where
  "dump_step w =
     (case write_fault w of
        None \<Rightarrow> (None, w)
      | Some (0, c) \<Rightarrow> (Some c, w\<lparr>write_fault := None\<rparr>)
      | Some (Suc n, c) \<Rightarrow> (None, w\<lparr>write_fault := Some (n, c)\<rparr>))"

definition non_ascii :: "string \<Rightarrow> bool" where
  "non_ascii s = list_ex (\<lambda>c. 128 \<le> (of_char c :: nat)) s"

definition non_ascii_text :: "conversation \<Rightarrow> bool" where
  "non_ascii_text c \<longleftrightarrow>
     (case conv_name c of None \<Rightarrow> False | Some n \<Rightarrow> non_ascii n)
   \<or> (case conv_chatbot_personality c of None \<Rightarrow> False | Some p \<Rightarrow> non_ascii p)
   \<or> (case conv_messages c of
         None \<Rightarrow> False
       | Some ms \<Rightarrow> list_ex (\<lambda>m. non_ascii (role m) \<or> non_ascii (content m)) ms)"

definition truncated :: "cut \<Rightarrow> conversation \<Rightarrow> conversation json_file" where
  "truncated ct c = (if ct = InsideChar \<and> non_ascii_text c then Undecodable else Malformed)"

definition write_conversation_file :: "stem \<Rightarrow> conversation \<Rightarrow> world \<Rightarrow> py_error option \<times> world" where
  "write_conversation_file k c w =
     (case db w of
        None \<Rightarrow> (Some FileNotFoundError, w)
      | Some d \<Rightarrow>
          (case conversations_dir d of
             None \<Rightarrow> (Some FileNotFoundError, w)
           | Some fs \<Rightarrow>
               (case dump_step w of
                  (Some ct, w1) \<Rightarrow>
                    (Some OSError,
                     w1\<lparr>db := Some (d\<lparr>conversations_dir := Some (AList.update k (truncated ct c) fs)\<rparr>)\<rparr>)
                | (None, w1) \<Rightarrow>
                    (None,
                     w1\<lparr>db := Some (d\<lparr>conversations_dir := Some (AList.update k (Decoded c) fs)\<rparr>)\<rparr>))))"

definition write_current_file :: "int \<Rightarrow> world \<Rightarrow> py_error option \<times> world" where
  "write_current_file cid w =
     (case db w of
        None \<Rightarrow> (Some FileNotFoundError, w)
      | Some d \<Rightarrow>
          (case dump_step w of
             (Some ct, w1) \<Rightarrow> (Some OSError, w1\<lparr>db := Some (d\<lparr>current_json := Some Malformed\<rparr>)\<rparr>)
           | (None, w1) \<Rightarrow> (None, w1\<lparr>db := Some (d\<lparr>current_json := Some (Decoded (Some cid))\<rparr>)\<rparr>)))"

text \<open>\<^verbatim>\<open>conversation_file.unlink()\<close>\<close>

definition unlink_conversation_file :: "stem \<Rightarrow> world \<Rightarrow> world" where
  "unlink_conversation_file k w =
     (case db w of
        None \<Rightarrow> w
      | Some d \<Rightarrow>
          (case conversations_dir d of
             None \<Rightarrow> w
           | Some fs \<Rightarrow> w\<lparr>db := Some (d\<lparr>conversations_dir := Some (AList.delete k fs)\<rparr>)\<rparr>))"

subsection \<open>Database functions\<close>

definition ensure_db_structure :: "world \<Rightarrow> world" where
  "ensure_db_structure w =
     (case db w of
        None \<Rightarrow> w\<lparr>db := Some \<lparr>current_json = None, conversations_dir = Some []\<rparr>\<rparr>
      | Some d \<Rightarrow> w)"

text \<open>The dictionary display of \<^verbatim>\<open>load_conversation_to_state\<close> reads the four keys in
  the order \<^verbatim>\<open>id\<close>, \<^verbatim>\<open>name\<close>, \<^verbatim>\<open>messages\<close>, \<^verbatim>\<open>chatbot_personality\<close>; the first
  absent one raises \<^verbatim>\<open>KeyError\<close>, before the session is changed.\<close>

definition load_conversation_to_state :: "conversation \<Rightarrow> world \<Rightarrow> py_error option \<times> world" where
  "load_conversation_to_state c w =
     (case conv_id c of
        None \<Rightarrow> (Some (KeyError ''id''), w)
      | Some i \<Rightarrow>
     (case conv_name c of
        None \<Rightarrow> (Some (KeyError ''name''), w)
      | Some n \<Rightarrow>
     (case conv_messages c of
        None \<Rightarrow> (Some (KeyError ''messages''), w)
      | Some ms \<Rightarrow>
     (case conv_chatbot_personality c of
        None \<Rightarrow> (Some (KeyError ''chatbot_personality''), w)
      | Some p \<Rightarrow>
          (None, w\<lparr>session := (session w)\<lparr>conversation_id := Some i,
                                             conversation_name := Some n,
                                             messages := Some ms,
                                             chatbot_personality := Some p\<rparr>\<rparr>)))))"

definition default_name :: "int \<Rightarrow> string" where
  "default_name cid = ''Konwersacja '' @ str_int cid"

text \<open>The dictionary of a new conversation with the id \<open>cid\<close>, as
  \<^verbatim>\<open>create_new_conversation\<close> and the fallback of \<^verbatim>\<open>load_current_conversation\<close>
  write it: the name \<^verbatim>\<open>f"Konwersacja {cid}"\<close>, the default personality, no message.\<close>

definition default_conversation :: "int \<Rightarrow> conversation" where
  "default_conversation cid =
     \<lparr>conv_id = Some cid,
      conv_name = Some (default_name cid),
      conv_chatbot_personality = Some DEFAULT_PERSONALITY,
      conv_messages = Some []\<rparr>"

definition load_current_conversation :: "world \<Rightarrow> outcome \<times> world" where
  "load_current_conversation w0 =
     (let w = ensure_db_structure w0
      in case current_file w of
           None \<Rightarrow>
             (let conversation = \<lparr>conv_id = Some 1,
                                  conv_name = Some ''Pierwsza konwersacja'',
                                  conv_chatbot_personality = Some DEFAULT_PERSONALITY,
                                  conv_messages = Some []\<rparr>
              in and_then (write_conversation_file (Canon 1) conversation w) (\<lambda>w.
                 and_then (write_current_file 1 w) (\<lambda>w.
                 and_then (load_conversation_to_state conversation w) (\<lambda>w.
                 (Returned, w)))))
         | Some Undecodable \<Rightarrow> (Raised UnicodeDecodeError, w)
         | Some Malformed \<Rightarrow> (Raised JSONDecodeError, w)
         | Some (Decoded None) \<Rightarrow> (Raised (KeyError ''current_conversation_id''), w)
         | Some (Decoded (Some cid)) \<Rightarrow>
             (case read_conversation_file w (Canon cid) of
                Some Undecodable \<Rightarrow> (Raised UnicodeDecodeError, w)
              | Some Malformed \<Rightarrow> (Raised JSONDecodeError, w)
              | Some (Decoded conversation) \<Rightarrow>
                  and_then (load_conversation_to_state conversation w) (\<lambda>w. (Returned, w))
              | None \<Rightarrow>
                  (let conversation = default_conversation cid
                   in and_then (load_conversation_to_state conversation w) (\<lambda>w. (Returned, w)))))"

text \<open>The dictionary that \<^verbatim>\<open>save_conversation\<close> builds from the session, with the
  defaults of its \<^verbatim>\<open>session_state.get\<close> calls.\<close>

definition active_id :: "session_state \<Rightarrow> int" where
  "active_id ss = (case conversation_id ss of None \<Rightarrow> 1 | Some i \<Rightarrow> i)"

definition active_snapshot :: "session_state \<Rightarrow> conversation" where
  "active_snapshot ss =
     \<lparr>conv_id = Some (active_id ss),
      conv_name = Some (case conversation_name ss of None \<Rightarrow> default_name (active_id ss) | Some n \<Rightarrow> n),
      conv_chatbot_personality =
        Some (case chatbot_personality ss of None \<Rightarrow> DEFAULT_PERSONALITY | Some p \<Rightarrow> p),
      conv_messages = Some (case messages ss of None \<Rightarrow> [] | Some ms \<Rightarrow> ms)\<rparr>"

definition save_conversation :: "world \<Rightarrow> outcome \<times> world" where
  "save_conversation w =
     (let cid = active_id (session w);
          conversation = active_snapshot (session w)
      in and_then (write_conversation_file (Canon cid) conversation w) (\<lambda>w. (Returned, w)))"

text \<open>The ids that \<^verbatim>\<open>create_new_conversation\<close> collects: \<^verbatim>\<open>int(file_path.stem)\<close> for
  every file of the directory, skipping a stem on which it raises \<^verbatim>\<open>ValueError\<close>; and
  \<^verbatim>\<open>max(conversation_ids, default=0) + 1\<close>.\<close>

fun stem_int :: "stem \<Rightarrow> int option" where
  "stem_int (Canon n) = Some n"
| "stem_int (Alias s n) = Some n"
| "stem_int (NonInt s) = None"

definition conversation_ids :: "world \<Rightarrow> int list" where
  "conversation_ids w = List.map_filter stem_int (map fst (conversation_files w))"

fun max_default :: "int list \<Rightarrow> int \<Rightarrow> int" where
  "max_default [] d = d"
| "max_default (x # xs) d = fold max xs x"

definition new_conversation_id :: "world \<Rightarrow> int" where
  "new_conversation_id w = max_default (conversation_ids w) 0 + 1"

definition create_new_conversation :: "world \<Rightarrow> outcome \<times> world" where
  "create_new_conversation w0 =
     (let w = ensure_db_structure w0;
          new_id = new_conversation_id w;
          conversation = default_conversation new_id
      in and_then (write_conversation_file (Canon new_id) conversation w) (\<lambda>w.
         and_then (write_current_file new_id w) (\<lambda>w.
         and_then (load_conversation_to_state conversation w) (\<lambda>w.
         (Rerun, w\<lparr>session := (session w)\<lparr>chatbot_personality := Some DEFAULT_PERSONALITY\<rparr>\<rparr>)))))"

definition switch_conversation :: "int \<Rightarrow> world \<Rightarrow> outcome \<times> world" where
  "switch_conversation cid w =
     (case read_conversation_file w (Canon cid) of
        None \<Rightarrow> (Returned, w)
      | Some Undecodable \<Rightarrow> (Raised UnicodeDecodeError, w)
      | Some Malformed \<Rightarrow> (Raised JSONDecodeError, w)
      | Some (Decoded conversation) \<Rightarrow>
          and_then (write_current_file cid w) (\<lambda>w.
          and_then (load_conversation_to_state conversation w) (\<lambda>w.
          (Rerun, w))))"

text \<open>
  The body of the \<^verbatim>\<open>try\<close> of \<^verbatim>\<open>list_conversations\<close> on one file (\<open>list_entry\<close>):
  \<^verbatim>\<open>JSONDecodeError\<close> and \<^verbatim>\<open>KeyError\<close> (a missing \<^verbatim>\<open>id\<close> or \<^verbatim>\<open>name\<close>) are
  caught and the file is skipped (\<open>Inr None\<close>), a missing \<^verbatim>\<open>messages\<close> counts as no
  message, and \<^verbatim>\<open>UnicodeDecodeError\<close> is not caught (\<open>Inl\<close>): it ends the loop
  (\<open>list_loop\<close>) and the function. \<open>sorted_desc\<close> is
  \<^verbatim>\<open>sorted(conversations, key=lambda x: x["id"], reverse=True)\<close>, which keeps entries
  with equal ids in their original order.
\<close>

definition list_entry :: "conversation json_file \<Rightarrow> py_error + listing option" where
  "list_entry f =
     (case f of
        Undecodable \<Rightarrow> Inl UnicodeDecodeError
      | Malformed \<Rightarrow> Inr None
      | Decoded c \<Rightarrow>
          (case conv_id c of
             None \<Rightarrow> Inr None
           | Some i \<Rightarrow>
               (case conv_name c of
                  None \<Rightarrow> Inr None
                | Some n \<Rightarrow>
                    Inr (Some \<lparr>listing_id = i, listing_name = n,
                               message_count =
                                 length (case conv_messages c of None \<Rightarrow> [] | Some ms \<Rightarrow> ms)\<rparr>))))"

fun list_loop :: "conversation json_file list \<Rightarrow> listing list \<Rightarrow> py_error + listing list" where
  "list_loop [] conversations = Inr conversations"
| "list_loop (f # rest) conversations =
     (case list_entry f of
        Inl e \<Rightarrow> Inl e
      | Inr None \<Rightarrow> list_loop rest conversations
      | Inr (Some l) \<Rightarrow> list_loop rest (conversations @ [l]))"

definition sorted_desc :: "listing list \<Rightarrow> listing list" where
  "sorted_desc xs = rev (sort_key listing_id (rev xs))"

definition list_conversations :: "world \<Rightarrow> py_error + listing list" where
  "list_conversations w =
     (case list_loop (map snd (conversation_files w)) [] of
        Inl e \<Rightarrow> Inl e
      | Inr conversations \<Rightarrow> Inr (sorted_desc conversations))"


text \<open>The first statement of \<^verbatim>\<open>delete_conversation\<close> (\<open>unlink_existing\<close>), and
  the whole function: an exception of \<^verbatim>\<open>list_conversations\<close> is raised to the caller,
  after the file was removed.\<close>

definition unlink_existing :: "int \<Rightarrow> world \<Rightarrow> world" where
  "unlink_existing cid w =
     (if read_conversation_file w (Canon cid) \<noteq> None
      then unlink_conversation_file (Canon cid) w else w)"

definition delete_conversation :: "int \<Rightarrow> world \<Rightarrow> outcome \<times> world" where
  "delete_conversation cid w0 =
     (let w = unlink_existing cid w0
      in if Some cid = conversation_id (session w)
         then (case list_conversations w of
                 Inl e \<Rightarrow> (Raised e, w)
               | Inr [] \<Rightarrow> create_new_conversation w
               | Inr (newest # _) \<Rightarrow> switch_conversation (listing_id newest) w)
         else (Returned, w))"

section \<open>Sequences of operations and store invariants\<close>

text \<open>
  A user session is a sequence of button presses, each of which calls
  \<^verbatim>\<open>create_new_conversation()\<close> or \<^verbatim>\<open>delete_conversation(id)\<close>.
  \<open>created_ids\<close> runs such a sequence and collects the id (the \<^verbatim>\<open>new_id\<close>) that each
  completed call of \<^verbatim>\<open>create_new_conversation\<close> assigned: the calls made by the presses,
  and the call that \<^verbatim>\<open>delete_conversation\<close> makes itself when it removed the active
  conversation and \<^verbatim>\<open>list_conversations\<close> returned the empty list.

  \<open>highest_id\<close> is \<^verbatim>\<open>max(conversation_ids, default=0)\<close>, and \<open>keeps_highest\<close> says of
  a sequence that none of its deletions is called with the highest id of the store at
  that moment.
\<close>

datatype action = CreateNew | Delete int

fun created_ids :: "action list \<Rightarrow> world \<Rightarrow> int list" where
  "created_ids [] w = []"
| "created_ids (CreateNew # rest) w =
     (case create_new_conversation w of
        (Rerun, w') \<Rightarrow> new_conversation_id (ensure_db_structure w) # created_ids rest w'
      | (_, w') \<Rightarrow> created_ids rest w')"
| "created_ids (Delete cid # rest) w =
     (let w1 = unlink_existing cid w
      in case delete_conversation cid w of
           (r, w') \<Rightarrow>
             if Some cid = conversation_id (session w1) \<and> list_conversations w1 = Inr [] \<and> r = Rerun
             then new_conversation_id (ensure_db_structure w1) # created_ids rest w'
             else created_ids rest w')"

definition highest_id :: "world \<Rightarrow> int" where
  "highest_id w = max_default (conversation_ids w) 0"

fun keeps_highest :: "action list \<Rightarrow> world \<Rightarrow> bool" where
  "keeps_highest [] w = True"
| "keeps_highest (CreateNew # rest) w = keeps_highest rest (snd (create_new_conversation w))"
| "keeps_highest (Delete cid # rest) w =
     (cid \<noteq> highest_id w \<and> keeps_highest rest (snd (delete_conversation cid w)))"

text \<open>
  \<open>dirs_usable\<close>: the directory \<^verbatim>\<open>db\<close> is absent (then \<^verbatim>\<open>ensure_db_structure\<close>
  makes both directories) or it has its \<^verbatim>\<open>conversations\<close> directory.

  \<open>store_consistent\<close>: the records of the store are those the program writes: no two
  files have the same name, and every record that \<^verbatim>\<open>list_conversations\<close> lists has
  its four keys and is in the file named by its id.

  \<open>readable_store\<close>: every file of \<^verbatim>\<open>db/conversations\<close> is UTF-8 text.

  \<open>remaining_ids w cid\<close>: the ids, other than \<open>cid\<close>, of the conversations of the store,
  a conversation being a file \<^verbatim>\<open>f"{j}.json"\<close> that holds a dictionary with the id \<open>j\<close>
  and a name.
\<close>

definition dirs_usable :: "world \<Rightarrow> bool" where
  "dirs_usable w = (case db w of None \<Rightarrow> True | Some d \<Rightarrow> conversations_dir d \<noteq> None)"

definition record_consistent :: "stem \<times> conversation json_file \<Rightarrow> bool" where
  "record_consistent kf =
     (case list_entry (snd kf) of
        Inr (Some l) \<Rightarrow>
          fst kf = Canon (listing_id l) \<and>
          (case snd kf of
             Decoded c \<Rightarrow> conv_messages c \<noteq> None \<and> conv_chatbot_personality c \<noteq> None
           | _ \<Rightarrow> False)
      | _ \<Rightarrow> True)"

definition store_consistent :: "world \<Rightarrow> bool" where
  "store_consistent w \<longleftrightarrow>
     distinct (map fst (conversation_files w)) \<and> list_all record_consistent (conversation_files w)"

definition store_ok :: "world \<Rightarrow> bool" where
  "store_ok w \<longleftrightarrow> store_consistent w \<and> dirs_usable w"

definition readable_store :: "world \<Rightarrow> bool" where
  "readable_store w = list_all (\<lambda>kf. snd kf \<noteq> Undecodable) (conversation_files w)"


text \<open>\<open>sound_disk\<close>: no write is going to fail, and none has left a file that is
  not text.\<close>

definition sound_disk :: "world \<Rightarrow> bool" where
  "sound_disk w \<longleftrightarrow> write_fault w = None \<and> readable_store w"

text \<open>
  The states the program can be in: it starts where there is no directory \<^verbatim>\<open>db\<close>,
  and every step is one of its database functions, called with any argument, a change
  of the session that keeps the id of the active conversation (the user renames the
  conversation, edits the personality, sends a message), a new browser session, or,
  when \<open>faults\<close> is true, a change in what the disk will do. \<open>reachable False\<close> are the
  states reached on a disk that never fails.
\<close>

inductive reachable :: "bool \<Rightarrow> world \<Rightarrow> bool" for faults :: bool where
  first_run: "(\<not> faults \<longrightarrow> f = None) \<Longrightarrow> reachable faults \<lparr>db = None, write_fault = f, session = ss\<rparr>"
| load: "reachable faults w \<Longrightarrow> reachable faults (snd (load_current_conversation w))"
| save: "reachable faults w \<Longrightarrow> reachable faults (snd (save_conversation w))"
| create: "reachable faults w \<Longrightarrow> reachable faults (snd (create_new_conversation w))"
| switch: "reachable faults w \<Longrightarrow> reachable faults (snd (switch_conversation cid w))"
| delete: "reachable faults w \<Longrightarrow> reachable faults (snd (delete_conversation cid w))"
| edit: "reachable faults w \<Longrightarrow> conversation_id ss = conversation_id (session w) \<Longrightarrow>
         reachable faults (w\<lparr>session := ss\<rparr>)"
| new_session: "reachable faults w \<Longrightarrow> conversation_id ss = None \<Longrightarrow>
         reachable faults (w\<lparr>session := ss\<rparr>)"
| disk: "reachable faults w \<Longrightarrow> faults \<Longrightarrow> reachable faults (w\<lparr>write_fault := f\<rparr>)"

text \<open>A message carries usage when its \<^verbatim>\<open>usage\<close> key is there and is not the empty
  dictionary.\<close>

definition carries_usage :: "message \<Rightarrow> bool" where
  "carries_usage m \<longleftrightarrow> usage m \<noteq> None \<and> usage m \<noteq> Some empty_usage"

section \<open>Example states\<close>

text \<open>
  Concrete states and messages on which the properties below are evaluated: a session
  before its first load on a machine without the directory \<^verbatim>\<open>db\<close>; a store with one
  conversation whose name, personality and messages were changed by the user, which is
  the active one; the same store on a disk whose next write fails; a pointer to a record
  that does not exist; a pointer to a record that is not valid JSON; a store with the
  three conversations 1, 2, 3 of which 2 is active, and the same store on a disk whose
  next write is cut inside a character; the store after a first run followed by a
  creation whose write of \<^verbatim>\<open>2.json\<close> was cut inside a character; and assistant
  messages with a given response time or given token counts.
\<close>

definition fresh_session :: session_state where
  "fresh_session = \<lparr>conversation_id = None, conversation_name = None, messages = None,
                     chatbot_personality = None, error_message = None,
                     selected_model = ''gpt-5-nano''\<rparr>"

definition fresh_world :: world where
  "fresh_world = \<lparr>db = None, write_fault = None, session = fresh_session\<rparr>"

definition custom_conversation :: conversation where
  "custom_conversation =
     \<lparr>conv_id = Some 1, conv_name = Some ''Piraci'',
      conv_chatbot_personality = Some ''Odpowiadaj jak pirat.'',
      conv_messages = Some [\<lparr>role = ''user'', content = ''Ahoj'', usage = None\<rparr>]\<rparr>"

definition custom_session :: session_state where
  "custom_session = \<lparr>conversation_id = Some 1, conversation_name = Some ''Piraci'',
                      messages = Some [\<lparr>role = ''user'', content = ''Ahoj'', usage = None\<rparr>],
                      chatbot_personality = Some ''Odpowiadaj jak pirat.'',
                      error_message = None, selected_model = ''gpt-5-nano''\<rparr>"

definition custom_world :: world where
  "custom_world =
     \<lparr>db = Some \<lparr>current_json = Some (Decoded (Some 1)),
                  conversations_dir = Some [(Canon 1, Decoded custom_conversation)]\<rparr>,
      write_fault = None, session = custom_session\<rparr>"

definition failing_world :: world where
  "failing_world =
     \<lparr>db = Some \<lparr>current_json = Some (Decoded (Some 1)),
                  conversations_dir = Some [(Canon 1, Decoded custom_conversation)]\<rparr>,
      write_fault = Some (0, InsideText), session = custom_session\<rparr>"

definition dangling_world :: world where
  "dangling_world =
     \<lparr>db = Some \<lparr>current_json = Some (Decoded (Some 5)),
                  conversations_dir = Some [(Canon 1, Decoded custom_conversation)]\<rparr>,
      write_fault = None, session = fresh_session\<rparr>"

definition corrupt_world :: world where
  "corrupt_world =
     \<lparr>db = Some \<lparr>current_json = Some (Decoded (Some 1)),
                  conversations_dir = Some [(Canon 1, Malformed)]\<rparr>,
      write_fault = None, session = fresh_session\<rparr>"

definition three_world :: world where
  "three_world =
     \<lparr>db = Some \<lparr>current_json = Some (Decoded (Some 2)),
                  conversations_dir = Some [(Canon 1, Decoded (default_conversation 1)),
                                            (Canon 2, Decoded (default_conversation 2)),
                                            (Canon 3, Decoded (default_conversation 3))]\<rparr>,
      write_fault = None,
      session = \<lparr>conversation_id = Some 2, conversation_name = Some (default_name 2),
                 messages = Some [], chatbot_personality = Some DEFAULT_PERSONALITY,
                 error_message = None, selected_model = ''gpt-5-nano''\<rparr>\<rparr>"

definition cut_world :: world where
  "cut_world = three_world\<lparr>write_fault := Some (0, InsideChar)\<rparr>"




definition timed_message :: "pyfloat \<Rightarrow> message" where
  "timed_message t =
     \<lparr>role = ''assistant'', content = ''ok'',
      usage = Some \<lparr>prompt_tokens = Some 100, completion_tokens = Some 50,
                     total_tokens = Some 150, response_time = Some t\<rparr>\<rparr>"

definition usage_message :: "int \<Rightarrow> int \<Rightarrow> message" where
  "usage_message p c =
     \<lparr>role = ''assistant'', content = ''ok'',
      usage = Some \<lparr>prompt_tokens = Some p, completion_tokens = Some c,
                     total_tokens = None, response_time = None\<rparr>\<rparr>"

section \<open>Properties of the float arithmetic\<close>

text \<open>The binary exponent is correct and unique, rounding to an integer fixes the
  integers and is monotone against them, and rounding to a float is idempotent: the
  result of every float operation is a float.\<close>

lemma pow2_bitlen:
  assumes "0 < (a::int)"
  shows "(2::rat) powi (bitlen a - 1) \<le> of_int a" "(of_int a :: rat) < 2 powi bitlen a"
proof -
  from bitlen_bounds[OF assms] have b: "2 ^ nat (bitlen a - 1) \<le> a" "a < 2 ^ nat (bitlen a)" by auto
  have ge1: "1 \<le> bitlen a" using assms bitlen_eq_zero_iff[of a] bitlen_nonneg[of a] by linarith
  have "(of_int (2 ^ nat (bitlen a - 1)) :: rat) \<le> of_int a" using b(1) by (simp only: of_int_le_iff)
  then show "(2::rat) powi (bitlen a - 1) \<le> of_int a" using ge1 by (simp add: power_int_def)
  have "(of_int a :: rat) < of_int (2 ^ nat (bitlen a))" using b(2) by (simp only: of_int_less_iff)
  then show "(of_int a :: rat) < 2 powi bitlen a" using ge1 by (simp add: power_int_def)
qed

lemma ilog2_bounds:
  assumes "0 < x"
  shows "2 powi ilog2 x \<le> x" "x < 2 powi (ilog2 x + 1)"
proof -
  obtain a b where q: "quotient_of x = (a, b)" by (cases "quotient_of x")
  have bpos: "0 < b" using q by (rule quotient_of_denom_pos)
  have x: "x = of_int a / of_int b" using q by (rule quotient_of_div)
  have apos: "0 < a" using assms bpos x by (simp add: zero_less_divide_iff)
  define d where "d = bitlen a - bitlen b"
  have il: "ilog2 x = (if 2 powi d \<le> x then d else d - 1)"
    by (simp add: ilog2_def q d_def Let_def)
  note A = pow2_bitlen[OF apos] and B = pow2_bitlen[OF bpos]
  have bq: "(0::rat) < of_int b" using bpos by simp
  have lo: "2 powi (d - 1) \<le> x"
  proof -
    have "(2::rat) powi (d - 1) * of_int b \<le> 2 powi (d - 1) * 2 powi bitlen b"
      using B(2) by (intro mult_left_mono) auto
    also have "\<dots> = 2 powi (bitlen a - 1)" 
      by (simp add: d_def flip: power_int_add)
    also have "\<dots> \<le> of_int a" by (rule A(1))
    finally show ?thesis using bq by (simp add: x pos_le_divide_eq)
  qed
  have hi: "x < 2 powi (d + 1)"
  proof -
    have "(of_int a :: rat) < 2 powi bitlen a" by (rule A(2))
    also have "\<dots> = 2 powi (d + 1) * 2 powi (bitlen b - 1)"
      by (simp add: d_def flip: power_int_add)
    also have "\<dots> \<le> 2 powi (d + 1) * of_int b"
      using B(1) by (intro mult_left_mono) auto
    finally show ?thesis using bq by (simp add: x pos_divide_less_eq)
  qed
  show "2 powi ilog2 x \<le> x" using lo by (simp add: il)
  show "x < 2 powi (ilog2 x + 1)" using hi by (auto simp add: il not_le)
qed

lemma ilog2_unique:
  assumes "0 < x" "2 powi e \<le> x" "x < 2 powi (e + 1)"
  shows "ilog2 x = e"
proof -
  note b = ilog2_bounds[OF assms(1)]
  have "(2::rat) powi ilog2 x < 2 powi (e + 1)" using b(1) assms(3) by (rule le_less_trans)
  then have 1: "ilog2 x < e + 1"
    by (metis power_int_increasing not_less one_le_numeral)
  have "(2::rat) powi e < 2 powi (ilog2 x + 1)" using assms(2) b(2) by (rule le_less_trans)
  then have 2: "e < ilog2 x + 1"
    by (metis power_int_increasing not_less one_le_numeral)
  from 1 2 show ?thesis by simp
qed

lemma rne_of_int: "rne (of_int n) = n"
  by (simp add: rne_def)

lemma rne_ge:
  assumes "of_int m \<le> q"
  shows "m \<le> rne q"
proof -
  have "m \<le> \<lfloor>q\<rfloor>" using assms by (simp add: le_floor_iff)
  moreover have "\<lfloor>q\<rfloor> \<le> rne q" by (simp add: rne_def Let_def)
  ultimately show ?thesis by simp
qed

lemma rne_le:
  assumes "q \<le> of_int m"
  shows "rne q \<le> m"
proof (cases "q = of_int \<lfloor>q\<rfloor>")
  case True
  then have "rne q = \<lfloor>q\<rfloor>" by (metis rne_of_int)
  then show ?thesis using assms by (simp add: floor_le_iff)
next
  case False
  then have "of_int \<lfloor>q\<rfloor> < q" by (auto simp add: less_le)
  then have "(of_int \<lfloor>q\<rfloor> :: rat) < of_int m" using assms by simp
  then have "\<lfloor>q\<rfloor> < m" by (simp only: of_int_less_iff)
  moreover have "rne q \<le> \<lfloor>q\<rfloor> + 1" by (simp add: rne_def Let_def)
  ultimately show ?thesis by simp
qed

lemma rnd_pos_eq:
  "ilog2 y = k \<Longrightarrow> rnd_pos y = of_int (rne (y / 2 powi (k - 52))) * 2 powi (k - 52)"
  by (simp add: rnd_pos_def Let_def)

lemma rnd_pos_idem:
  assumes "0 < x"
  shows "0 < rnd_pos x" "rnd_pos (rnd_pos x) = rnd_pos x"
proof -
  define e where "e = ilog2 x"
  define q :: rat where "q = 2 powi (e - 52)"
  define n where "n = rne (x / q)"
  have qpos: "0 < q" by (simp add: q_def)
  have r: "rnd_pos x = of_int n * q" by (simp add: rnd_pos_def n_def q_def e_def Let_def)
  note b = ilog2_bounds[OF assms, folded e_def]
  have pw: "(2::rat) powi a = 2 powi (a - b) * 2 powi b" for a b :: int
    by (simp flip: power_int_add)
  have pe: "(2::rat) powi e = 2 ^ 52 * q"
    using pw[of e "e - 52"] by (simp add: q_def)
  have pe1: "(2::rat) powi (e + 1) = 2 ^ 53 * q"
    using pw[of "e + 1" "e - 52"] by (simp add: q_def)
  have pe2: "(2::rat) powi (e + 2) = 2 ^ 54 * q"
    using pw[of "e + 2" "e - 52"] by (simp add: q_def)
  have q': "(2::rat) powi (e + 1 - 52) = 2 * q"
    using pw[of "e + 1 - 52" "e - 52"] by (simp add: q_def)
  have "(of_int (2 ^ 52) :: rat) \<le> x / q" using b(1) qpos by (simp add: pe pos_le_divide_eq)
  then have nlo: "2 ^ 52 \<le> n" unfolding n_def by (rule rne_ge)
  have "x / q \<le> (of_int (2 ^ 53) :: rat)" using b(2) qpos by (simp add: pe1 pos_divide_le_eq)
  then have nhi: "n \<le> 2 ^ 53" unfolding n_def by (rule rne_le)
  have npos: "0 < n" using nlo by simp
  show pos: "0 < rnd_pos x" using npos qpos by (simp add: r)
  have nq: "(2::rat) ^ 52 * q \<le> of_int n * q"
  proof -
    have "(of_int (2 ^ 52) :: rat) \<le> of_int n" using nlo by (simp only: of_int_le_iff)
    then show ?thesis using qpos by simp
  qed
  show "rnd_pos (rnd_pos x) = rnd_pos x"
  proof (cases "n = 2 ^ 53")
    case True
    have rv: "rnd_pos x = 2 ^ 53 * q" by (simp add: r True)
    have il: "ilog2 (rnd_pos x) = e + 1"
      using pos qpos by (intro ilog2_unique) (simp_all add: pe1 rv add.assoc pe2)
    have dv: "rnd_pos x / (2 * q) = of_int (2 ^ 52)" using qpos by (simp add: rv)
    have "rnd_pos (rnd_pos x) = of_int (rne (rnd_pos x / (2 * q))) * (2 * q)"
      using rnd_pos_eq[OF il] by (simp only: q')
    also have "\<dots> = of_int (2 ^ 52) * (2 * q)" by (simp only: dv rne_of_int)
    also have "\<dots> = rnd_pos x" by (simp add: rv)
    finally show ?thesis .
  next
    case False
    then have "n < 2 ^ 53" using nhi by simp
    then have "(of_int n :: rat) < of_int (2 ^ 53)" by (simp only: of_int_less_iff)
    then have "of_int n * q < 2 ^ 53 * q" using qpos by simp
    then have il: "ilog2 (rnd_pos x) = e"
      using pos nq by (intro ilog2_unique) (simp_all add: pe pe1 r)
    have dv: "rnd_pos x / q = of_int n" using qpos by (simp add: r)
    have "rnd_pos (rnd_pos x) = of_int (rne (rnd_pos x / q)) * q"
      using rnd_pos_eq[OF il] by (simp only: q_def)
    also have "\<dots> = of_int n * q" by (simp only: dv rne_of_int)
    finally show ?thesis by (simp add: r)
  qed
qed

lemma rnd_idem: "rnd (rnd x) = rnd x"
proof -
  consider "x = 0" | "0 < x" | "x < 0" by linarith
  then show ?thesis
  proof cases
    case 1 then show ?thesis by (simp add: rnd_def)
  next
    case 2
    with rnd_pos_idem[OF 2] show ?thesis by (simp add: rnd_def)
  next
    case 3
    then have p: "0 < - x" by simp
    from rnd_pos_idem[OF p] 3 show ?thesis by (simp add: rnd_def)
  qed
qed


lemma is_float_rnd: "is_float (rnd x)"
  by (simp add: is_float_def rnd_idem)

lemma rnd_zero: "rnd 0 = 0"
  by (simp add: rnd_def)

lemma is_float_zero: "is_float 0"
  by (simp add: is_float_def rnd_zero)

lemma fadd_zero: "is_float x \<Longrightarrow> fadd x 0 = x"
  by (simp add: fadd_def is_float_def)

lemma fmul_zero: "fmul 0 x = 0"
  by (simp add: fmul_def rnd_zero)

lemma float_of_int_zero: "float_of_int 0 = 0"
  by (simp add: float_of_int_def rnd_zero)

section \<open>Properties of the cost computation\<close>

lemma cost_step_float:
  "is_float (fst acc) \<Longrightarrow> is_float (snd acc) \<Longrightarrow>
   is_float (fst (cost_step p acc m)) \<and> is_float (snd (cost_step p acc m))"
  by (simp add: cost_step_def fadd_def is_float_rnd split: option.splits)

lemma cost_loop_float:
  "is_float (fst acc) \<Longrightarrow> is_float (snd acc) \<Longrightarrow>
   is_float (fst (cost_loop p ms acc)) \<and> is_float (snd (cost_loop p ms acc))"
  by (induction ms arbitrary: acc) (simp_all add: cost_step_float)

lemma cost_loop_append:
  "cost_loop p (ms @ ms') acc = cost_loop p ms' (cost_loop p ms acc)"
  by (induction ms arbitrary: acc) simp_all

lemma cost_step_empty_usage:
  assumes "is_float (fst acc)" "is_float (snd acc)" "usage m = Some empty_usage"
  shows "cost_step p acc m = acc"
  using assms
  by (simp add: cost_step_def empty_usage_def get_tokens_def get_time_def float_of_int_zero
      fmul_zero fadd_zero is_float_zero prod_eq_iff)

lemma calculate_float:
  "is_float (fst (calculate_conversation_cost ms p)) \<and>
   is_float (snd (calculate_conversation_cost ms p))"
  by (simp add: calculate_conversation_cost_def cost_loop_float is_float_zero)

lemma cost_step_skip:
  assumes "is_float (fst acc)" "is_float (snd acc)" "\<not> carries_usage m"
  shows "cost_step p acc m = acc"
proof (cases "usage m")
  case None
  then show ?thesis by (simp add: cost_step_def)
next
  case (Some u)
  with assms(3) have "usage m = Some empty_usage" by (simp add: carries_usage_def)
  with assms(1,2) show ?thesis by (rule cost_step_empty_usage)
qed

lemma cost_loop_filter:
  "is_float (fst acc) \<Longrightarrow> is_float (snd acc) \<Longrightarrow>
   cost_loop p (filter carries_usage ms) acc = cost_loop p ms acc"
proof (induction ms arbitrary: acc)
  case Nil
  then show ?case by simp
next
  case (Cons m ms)
  show ?case
  proof (cases "carries_usage m")
    case True
    then show ?thesis
      using Cons.IH[of "cost_step p acc m"] cost_step_float[OF Cons.prems, of p m] by simp
  next
    case False
    then show ?thesis
      using Cons.IH[OF Cons.prems] cost_step_skip[OF Cons.prems False, of p] by simp
  qed
qed

section \<open>The answer of the chatbot\<close>

text \<open>
  Claim C8, as amended. When the model's first choice has \<^verbatim>\<open>finish_reason == "length"\<close>,
  the content of the returned assistant message is the model's content (the empty string
  when it is \<^verbatim>\<open>None\<close>) followed by the truncation notice, the text of line 216 of the
  source: it ends with the notice and is longer than the model's content. For every other
  finish reason, \<^verbatim>\<open>"stop"\<close> among them, the returned content is the model's content
  unchanged: no notice is added, and the returned content contains the notice exactly
  when the model's own content does.
\<close>

theorem chatbot_reply_truncation:
  assumes "client (build_request ss user_prompt memory file_content) = Responds r"
    and "choices r = c # cs"
  shows "(finish_reason c = Some ''length'' \<longrightarrow>
            content (fst (chatbot_reply client elapsed ss user_prompt memory file_content))
              = (case message_content c of None \<Rightarrow> [] | Some t \<Rightarrow> t) @ truncation_notice
          \<and> suffix truncation_notice
               (content (fst (chatbot_reply client elapsed ss user_prompt memory file_content)))
          \<and> length (content (fst (chatbot_reply client elapsed ss user_prompt memory file_content)))
              = length (case message_content c of None \<Rightarrow> [] | Some t \<Rightarrow> t) + 138)
       \<and> (finish_reason c \<noteq> Some ''length'' \<longrightarrow>
            content (fst (chatbot_reply client elapsed ss user_prompt memory file_content))
              = (case message_content c of None \<Rightarrow> [] | Some t \<Rightarrow> t))
       \<and> (finish_reason c = Some ''stop'' \<longrightarrow>
            content (fst (chatbot_reply client elapsed ss user_prompt memory file_content))
              = (case message_content c of None \<Rightarrow> [] | Some t \<Rightarrow> t)
          \<and> (sublist truncation_notice
                (content (fst (chatbot_reply client elapsed ss user_prompt memory file_content)))
              \<longleftrightarrow> sublist truncation_notice (case message_content c of None \<Rightarrow> [] | Some t \<Rightarrow> t)))
       \<and> truncation_notice =
            [CHR 0x0A, CHR 0x0A, CHR 0xE2, CHR 0x9A, CHR 0xA0, CHR 0xEF, CHR 0xB8, CHR 0x8F] @
            '' **Odpowied'' @ [CHR 0xC5, CHR 0xBA] @ '' zosta'' @
            [CHR 0xC5, CHR 0x82] @ ''a obci'' @ [CHR 0xC4, CHR 0x99] @
            ''ta** - osi'' @ [CHR 0xC4, CHR 0x85] @ ''gni'' @ [CHR 0xC4, CHR 0x99] @
            ''to limit token'' @ [CHR 0xC3, CHR 0xB3] @ ''w. Zwi'' @
            [CHR 0xC4, CHR 0x99] @ ''ksz '' @ [CHR 0x60] @
            ''max_completion_tokens'' @ [CHR 0x60] @ '' aby uzyska'' @
            [CHR 0xC4, CHR 0x87] @ '' pe'' @ [CHR 0xC5, CHR 0x82] @ ''n'' @
            [CHR 0xC4, CHR 0x85] @ '' odpowied'' @ [CHR 0xC5, CHR 0xBA] @ ''.''"
proof -
  let ?t = "case message_content c of None \<Rightarrow> [] | Some t \<Rightarrow> t"
  let ?rc = "content (fst (chatbot_reply client elapsed ss user_prompt memory file_content))"
  have n: "length truncation_notice = 138" by (simp add: truncation_notice_def)
  have l: "finish_reason c = Some ''length'' \<longrightarrow>
             ?rc = ?t @ truncation_notice \<and> suffix truncation_notice ?rc
           \<and> length ?rc = length ?t + 138"
    using assms n by (simp add: chatbot_reply_def Let_def suffix_def)
  have s: "finish_reason c \<noteq> Some ''length'' \<longrightarrow> ?rc = ?t"
    using assms by (simp add: chatbot_reply_def Let_def)
  have st: "finish_reason c = Some ''stop'' \<longrightarrow>
              ?rc = ?t \<and> (sublist truncation_notice ?rc \<longleftrightarrow> sublist truncation_notice ?t)"
    using s by simp
  have lit: "truncation_notice =
            [CHR 0x0A, CHR 0x0A, CHR 0xE2, CHR 0x9A, CHR 0xA0, CHR 0xEF, CHR 0xB8, CHR 0x8F] @
            '' **Odpowied'' @ [CHR 0xC5, CHR 0xBA] @ '' zosta'' @
            [CHR 0xC5, CHR 0x82] @ ''a obci'' @ [CHR 0xC4, CHR 0x99] @
            ''ta** - osi'' @ [CHR 0xC4, CHR 0x85] @ ''gni'' @ [CHR 0xC4, CHR 0x99] @
            ''to limit token'' @ [CHR 0xC3, CHR 0xB3] @ ''w. Zwi'' @
            [CHR 0xC4, CHR 0x99] @ ''ksz '' @ [CHR 0x60] @
            ''max_completion_tokens'' @ [CHR 0x60] @ '' aby uzyska'' @
            [CHR 0xC4, CHR 0x87] @ '' pe'' @ [CHR 0xC5, CHR 0x82] @ ''n'' @
            [CHR 0xC4, CHR 0x85] @ '' odpowied'' @ [CHR 0xC5, CHR 0xBA] @ ''.''"
    by (simp add: truncation_notice_def)
  show ?thesis by (rule conjI[OF l conjI[OF s conjI[OF st lit]]])
qed

theorem chatbot_reply_truncation_witness:
  "content (fst (chatbot_reply
      (\<lambda>_. Responds \<lparr>response_usage = None,
                       choices = [\<lparr>finish_reason = Some ''length'', message_content = Some ''abc''\<rparr>]\<rparr>)
      1 \<lparr>conversation_id = Some 1, conversation_name = None, messages = None,
         chatbot_personality = None, error_message = None, selected_model = ''gpt-5-nano''\<rparr>
      ''hello'' [] None)) = ''abc'' @ truncation_notice
   \<and> content (fst (chatbot_reply
      (\<lambda>_. Responds \<lparr>response_usage = None,
                       choices = [\<lparr>finish_reason = Some ''stop'', message_content = Some ''abc''\<rparr>]\<rparr>)
      1 \<lparr>conversation_id = Some 1, conversation_name = None, messages = None,
         chatbot_personality = None, error_message = None, selected_model = ''gpt-5-nano''\<rparr>
      ''hello'' [] None)) = ''abc''"
  using chatbot_reply_truncation
      [of "\<lambda>_. Responds \<lparr>response_usage = None,
                       choices = [\<lparr>finish_reason = Some ''length'', message_content = Some ''abc''\<rparr>]\<rparr>"
      _ _ _ _ "\<lparr>response_usage = None,
                       choices = [\<lparr>finish_reason = Some ''length'', message_content = Some ''abc''\<rparr>]\<rparr>"
      "\<lparr>finish_reason = Some ''length'', message_content = Some ''abc''\<rparr>" "[]"]
    chatbot_reply_truncation
      [of "\<lambda>_. Responds \<lparr>response_usage = None,
                       choices = [\<lparr>finish_reason = Some ''stop'', message_content = Some ''abc''\<rparr>]\<rparr>"
      _ _ _ _ "\<lparr>response_usage = None,
                       choices = [\<lparr>finish_reason = Some ''stop'', message_content = Some ''abc''\<rparr>]\<rparr>"
      "\<lparr>finish_reason = Some ''stop'', message_content = Some ''abc''\<rparr>" "[]"]
  by simp

text \<open>The model ends its answer normally (\<^verbatim>\<open>finish_reason == "stop"\<close>) with a content
  that quotes the notice, as it can after an earlier truncated answer was sent back to it
  in the history: the returned content contains the notice.\<close>

theorem chatbot_reply_stop_notice_counterexample:
  "finish_reason \<lparr>finish_reason = Some ''stop'', message_content = Some (''ok'' @ truncation_notice)\<rparr>
     = Some ''stop''
   \<and> content (fst (chatbot_reply
        (\<lambda>_. Responds \<lparr>response_usage = None,
                         choices = [\<lparr>finish_reason = Some ''stop'',
                                     message_content = Some (''ok'' @ truncation_notice)\<rparr>]\<rparr>)
        1 \<lparr>conversation_id = Some 1, conversation_name = None, messages = None,
           chatbot_personality = None, error_message = None, selected_model = ''gpt-5-nano''\<rparr>
        ''hello'' [] None)) = ''ok'' @ truncation_notice
   \<and> sublist truncation_notice
       (content (fst (chatbot_reply
        (\<lambda>_. Responds \<lparr>response_usage = None,
                         choices = [\<lparr>finish_reason = Some ''stop'',
                                     message_content = Some (''ok'' @ truncation_notice)\<rparr>]\<rparr>)
        1 \<lparr>conversation_id = Some 1, conversation_name = None, messages = None,
           chatbot_personality = None, error_message = None, selected_model = ''gpt-5-nano''\<rparr>
        ''hello'' [] None)))"
proof -
  have c: "content (fst (chatbot_reply
        (\<lambda>_. Responds \<lparr>response_usage = None,
                         choices = [\<lparr>finish_reason = Some ''stop'',
                                     message_content = Some (''ok'' @ truncation_notice)\<rparr>]\<rparr>)
        1 \<lparr>conversation_id = Some 1, conversation_name = None, messages = None,
           chatbot_personality = None, error_message = None, selected_model = ''gpt-5-nano''\<rparr>
        ''hello'' [] None)) = ''ok'' @ truncation_notice"
    by (simp add: chatbot_reply_def Let_def)
  have "sublist truncation_notice (''ok'' @ truncation_notice)"
    by (rule sublist_append_leftI)
  with c show ?thesis by simp
qed

text \<open>
  Claim C4. When the model client fails, by raising an exception with description \<open>e\<close>
  or by returning a response without any choice (on which \<^verbatim>\<open>response.choices[0]\<close>
  raises inside the \<^verbatim>\<open>try\<close>), \<^verbatim>\<open>chatbot_reply\<close> returns: its answer is the assistant
  message whose content is the error template around \<open>e\<close> and whose usage is the empty
  dictionary, and the error is kept in the session. Appending that message to any history
  leaves the cost and the time of the conversation unchanged, and the message alone costs
  \<open>(0, 0)\<close>.
\<close>

theorem chatbot_reply_failure:
  assumes "client (build_request ss user_prompt memory file_content) = Raises e
         \<or> (\<exists>r. client (build_request ss user_prompt memory file_content) = Responds r
                \<and> choices r = [] \<and> e = ''list index out of range'')"
  shows "chatbot_reply client elapsed ss user_prompt memory file_content =
           (\<lparr>role = ''assistant'', content = error_prefix @ e @ error_suffix, usage = Some empty_usage\<rparr>,
            ss\<lparr>error_message := Some (banner_prefix @ e)\<rparr>)
       \<and> calculate_conversation_cost
            (history @ [fst (chatbot_reply client elapsed ss user_prompt memory file_content)]) pricing
          = calculate_conversation_cost history pricing
       \<and> calculate_conversation_cost
            [fst (chatbot_reply client elapsed ss user_prompt memory file_content)] pricing = (0, 0)"
proof -
  let ?m = "\<lparr>role = ''assistant'', content = error_prefix @ e @ error_suffix, usage = Some empty_usage\<rparr>"
  have r: "chatbot_reply client elapsed ss user_prompt memory file_content =
           (?m, ss\<lparr>error_message := Some (banner_prefix @ e)\<rparr>)"
    using assms by (auto simp add: chatbot_reply_def reply_error_def Let_def)
  have u: "usage ?m = Some empty_usage" by simp
  have 1: "calculate_conversation_cost (history @ [?m]) pricing = calculate_conversation_cost history pricing"
    using calculate_float[of history pricing] cost_step_empty_usage[OF _ _ u]
    by (simp add: calculate_conversation_cost_def cost_loop_append)
  have 2: "calculate_conversation_cost [?m] pricing = (0, 0)"
    using cost_step_empty_usage[OF _ _ u, of "(0, 0)" pricing]
    by (simp add: calculate_conversation_cost_def is_float_zero)
  show ?thesis using r 1 2 by simp
qed

theorem chatbot_reply_failure_witness:
  "chatbot_reply (\<lambda>_. Raises ''Connection error.'') 1
      \<lparr>conversation_id = Some 1, conversation_name = None, messages = None,
       chatbot_personality = None, error_message = None, selected_model = ''gpt-5-nano''\<rparr>
      ''hello'' [] None
    = (\<lparr>role = ''assistant'', content = error_prefix @ ''Connection error.'' @ error_suffix,
        usage = Some empty_usage\<rparr>,
       \<lparr>conversation_id = Some 1, conversation_name = None, messages = None,
        chatbot_personality = None,
        error_message = Some (banner_prefix @ ''Connection error.''),
        selected_model = ''gpt-5-nano''\<rparr>)
   \<and> calculate_conversation_cost
        [fst (chatbot_reply (\<lambda>_. Raises ''Connection error.'') 1
           \<lparr>conversation_id = Some 1, conversation_name = None, messages = None,
            chatbot_personality = None, error_message = None, selected_model = ''gpt-5-nano''\<rparr>
           ''hello'' [] None)]
        \<lparr>opis_modelu = [], input_tokens = 1, output_tokens = 2\<rparr> = (0, 0)"
  using chatbot_reply_failure
    [where client = "\<lambda>_. Raises ''Connection error.''" and e = "''Connection error.''"
       and elapsed = 1 and user_prompt = "''hello''" and memory = "[]" and file_content = None
       and history = "[]" and pricing = "\<lparr>opis_modelu = [], input_tokens = 1, output_tokens = 2\<rparr>"
       and ss = "\<lparr>conversation_id = Some 1, conversation_name = None, messages = None,
                  chatbot_personality = None, error_message = None,
                  selected_model = ''gpt-5-nano''\<rparr>"]
  by (simp cong: conj_cong)

section \<open>The order of the messages in the cost\<close>

text \<open>The two prices of \<^verbatim>\<open>gpt-5-nano\<close> as floats, the sum of the response times
  0.1, 0.2 and 0.3 in both orders, and the cost of the two messages of the scenario.\<close>

lemma nano_prices:
  "input_tokens nano_pricing = 7555786372591433 / 151115727451828646838272"
  "output_tokens nano_pricing = 7555786372591433 / 18889465931478580854784"
  unfolding nano_pricing_def by (simp, code_simp)+

lemma sum_times_forward:
  "fadd (fadd (fadd 0 (float_lit (1 / 10))) (float_lit (2 / 10))) (float_lit (3 / 10))
     = 5404319552844596 / 9007199254740992"
  by code_simp

lemma sum_times_backward:
  "fadd (fadd (fadd 0 (float_lit (3 / 10))) (float_lit (2 / 10))) (float_lit (1 / 10))
     = 5404319552844595 / 9007199254740992"
  by code_simp

lemma cost_of_two:
  "fadd (fadd 0 (fadd (fmul (float_of_int 100) (7555786372591433 / 151115727451828646838272))
                      (fmul (float_of_int 50) (7555786372591433 / 18889465931478580854784))))
        (fadd (fmul (float_of_int 10) (7555786372591433 / 151115727451828646838272))
              (fmul (float_of_int 5) (7555786372591433 / 18889465931478580854784)))
   = fdiv (fadd (fmul (float_of_int 110) (float_lit (5 / 100)))
                (fmul (float_of_int 55) (float_lit (40 / 100))))
          (float_of_int 1000000)"
  by code_simp

lemma cost_of_spec_scenario:
  "fst (calculate_conversation_cost [usage_message 100 50, usage_message 10 5] nano_pricing)
   = fdiv (fadd (fmul (float_of_int 110) (float_lit (5 / 100)))
                (fmul (float_of_int 55) (float_lit (40 / 100))))
          (float_of_int 1000000)"
  by (simp add: calculate_conversation_cost_def cost_step_def usage_message_def get_tokens_def
      nano_prices cost_of_two)

lemma small_costs:
  "fadd 0 (fadd (fmul (float_of_int 100) 1) (fmul (float_of_int 50) 2)) = 200"
  "fadd 0 1 = 1"
  by code_simp+

text \<open>
  Claim C3, as amended. \<^verbatim>\<open>calculate_conversation_cost\<close> is a fold from the left in float
  arithmetic, from \<open>(0, 0)\<close>: a message with a usage dictionary adds
  \<^verbatim>\<open>prompt_tokens * input_tokens + completion_tokens * output_tokens\<close> to the cost and
  \<^verbatim>\<open>response_time\<close> to the time, a key that is absent counting as 0 and each operation
  rounded. A message without the key \<^verbatim>\<open>usage\<close> leaves the accumulators as they are,
  and a message with the empty usage dictionary can be taken out of the list, wherever it
  stands, without changing the totals; so two lists with the same subsequence of messages
  that carry usage have the same totals. On the two messages of the scenario, under the
  prices of \<^verbatim>\<open>gpt-5-nano\<close>, the cost is the float \<^verbatim>\<open>(110*0.05 + 55*0.40)/1e6\<close>. That
  every permutation gives the same totals is not part of the statement: the sums are
  rounded, and their order matters.
\<close>

theorem calculate_conversation_cost_fold:
  "calculate_conversation_cost [] p = (0, 0)
   \<and> (\<forall>u. usage m = Some u \<longrightarrow>
        calculate_conversation_cost (ms @ [m]) p =
          (fadd (fst (calculate_conversation_cost ms p))
             (fadd (fmul (float_of_int (case prompt_tokens u of None \<Rightarrow> 0 | Some n \<Rightarrow> n))
                         (input_tokens p))
                   (fmul (float_of_int (case completion_tokens u of None \<Rightarrow> 0 | Some n \<Rightarrow> n))
                         (output_tokens p))),
           fadd (snd (calculate_conversation_cost ms p))
                (case response_time u of None \<Rightarrow> 0 | Some t \<Rightarrow> t)))
   \<and> (usage m = None \<longrightarrow>
        calculate_conversation_cost (ms @ [m]) p = calculate_conversation_cost ms p)
   \<and> calculate_conversation_cost (ms @ [m]) p = cost_step p (calculate_conversation_cost ms p) m
   \<and> (\<forall>acc. usage m = None \<longrightarrow> cost_step p acc m = acc)
   \<and> (usage m = Some empty_usage \<longrightarrow>
        calculate_conversation_cost (ms @ [m] @ ms') p = calculate_conversation_cost (ms @ ms') p)
   \<and> (filter carries_usage ms = filter carries_usage ms' \<longrightarrow>
        calculate_conversation_cost ms p = calculate_conversation_cost ms' p)
   \<and> fst (calculate_conversation_cost [usage_message 100 50, usage_message 10 5] nano_pricing)
       = fdiv (fadd (fmul (float_of_int 110) (float_lit (5 / 100)))
                    (fmul (float_of_int 55) (float_lit (40 / 100))))
              (float_of_int 1000000)"
proof -
  have z: "is_float (fst (0::rat, 0::rat))" "is_float (snd (0::rat, 0::rat))"
    by (simp_all add: is_float_zero)
  have e: "calculate_conversation_cost [] p = (0, 0)"
    by (simp add: calculate_conversation_cost_def)
  have a: "calculate_conversation_cost (ms @ [m]) p = cost_step p (calculate_conversation_cost ms p) m"
    by (simp add: calculate_conversation_cost_def cost_loop_append)
  have u: "\<forall>u. usage m = Some u \<longrightarrow>
        calculate_conversation_cost (ms @ [m]) p =
          (fadd (fst (calculate_conversation_cost ms p))
             (fadd (fmul (float_of_int (case prompt_tokens u of None \<Rightarrow> 0 | Some n \<Rightarrow> n))
                         (input_tokens p))
                   (fmul (float_of_int (case completion_tokens u of None \<Rightarrow> 0 | Some n \<Rightarrow> n))
                         (output_tokens p))),
           fadd (snd (calculate_conversation_cost ms p))
                (case response_time u of None \<Rightarrow> 0 | Some t \<Rightarrow> t))"
    unfolding a
    by (simp add: cost_step_def get_tokens_def get_time_def float_of_int_zero split: option.splits)
  have n: "usage m = None \<longrightarrow>
        calculate_conversation_cost (ms @ [m]) p = calculate_conversation_cost ms p"
    unfolding a by (simp add: cost_step_def)
  have b: "\<forall>acc. usage m = None \<longrightarrow> cost_step p acc m = acc"
    by (simp add: cost_step_def)
  have c: "usage m = Some empty_usage \<longrightarrow>
      calculate_conversation_cost (ms @ [m] @ ms') p = calculate_conversation_cost (ms @ ms') p"
  proof
    assume that: "usage m = Some empty_usage"
    show "calculate_conversation_cost (ms @ [m] @ ms') p = calculate_conversation_cost (ms @ ms') p"
      using calculate_float[of ms p] cost_step_empty_usage[OF _ _ that]
      by (simp add: calculate_conversation_cost_def cost_loop_append)
  qed
  have d: "filter carries_usage ms = filter carries_usage ms' \<longrightarrow>
      calculate_conversation_cost ms p = calculate_conversation_cost ms' p"
  proof
    assume that: "filter carries_usage ms = filter carries_usage ms'"
    show "calculate_conversation_cost ms p = calculate_conversation_cost ms' p"
      using cost_loop_filter[OF z, of p ms] cost_loop_filter[OF z, of p ms'] that
      by (simp add: calculate_conversation_cost_def)
  qed
  show ?thesis
    by (rule conjI[OF e conjI[OF u conjI[OF n conjI[OF a conjI[OF b conjI[OF c
          conjI[OF d cost_of_spec_scenario]]]]]]])
qed

theorem calculate_conversation_cost_fold_witness:
  "usage (timed_message 1) =
     Some \<lparr>prompt_tokens = Some 100, completion_tokens = Some 50, total_tokens = Some 150,
           response_time = Some 1\<rparr>
   \<and> calculate_conversation_cost ([] @ [timed_message 1])
        \<lparr>opis_modelu = [], input_tokens = 1, output_tokens = 2\<rparr> = (200, 1)
   \<and> calculate_conversation_cost
     [\<lparr>role = ''user'', content = ''hej'', usage = None\<rparr>, usage_message 100 50] nano_pricing
   = calculate_conversation_cost
     [usage_message 100 50, \<lparr>role = ''user'', content = ''hej'', usage = None\<rparr>] nano_pricing
   \<and> calculate_conversation_cost
      ([usage_message 100 50] @ [\<lparr>role = ''assistant'', content = ''blad'', usage = Some empty_usage\<rparr>]
       @ [usage_message 10 5]) nano_pricing
     = calculate_conversation_cost ([usage_message 100 50] @ [usage_message 10 5]) nano_pricing
   \<and> calculate_conversation_cost
      ([usage_message 100 50] @ [\<lparr>role = ''user'', content = ''hej'', usage = None\<rparr>]) nano_pricing
     = calculate_conversation_cost [usage_message 100 50] nano_pricing
   \<and> cost_step nano_pricing (1, 2) \<lparr>role = ''user'', content = ''hej'', usage = None\<rparr> = (1, 2)"
proof -
  let ?u = "\<lparr>role = ''user'', content = ''hej'', usage = None\<rparr>"
  let ?e = "\<lparr>role = ''assistant'', content = ''blad'', usage = Some empty_usage\<rparr>"
  let ?p = "\<lparr>opis_modelu = [], input_tokens = 1, output_tokens = 2\<rparr>"
  have f: "filter carries_usage [?u, usage_message 100 50]
         = filter carries_usage [usage_message 100 50, ?u]"
    by (simp add: carries_usage_def usage_message_def empty_usage_def)
  have t: "usage (timed_message 1) =
     Some \<lparr>prompt_tokens = Some 100, completion_tokens = Some 50, total_tokens = Some 150,
           response_time = Some 1\<rparr>"
    by (simp add: timed_message_def)
  from calculate_conversation_cost_fold[where ms = "[]" and m = "timed_message 1" and p = ?p]
  have 1: "calculate_conversation_cost ([] @ [timed_message 1]) ?p = (200, 1)"
    by (simp add: t small_costs)
  from calculate_conversation_cost_fold[where ms = "[?u, usage_message 100 50]" and m = ?u and p = nano_pricing
                    and ms' = "[usage_message 100 50, ?u]"]
       calculate_conversation_cost_fold[where ms = "[usage_message 100 50]" and m = ?e and p = nano_pricing
                    and ms' = "[usage_message 10 5]"]
       calculate_conversation_cost_fold[where ms = "[usage_message 100 50]" and m = ?u and p = nano_pricing]
  show ?thesis using f t 1 by simp
qed

text \<open>The totals depend on the order of the messages: three answers that took 0.1 s,
  0.2 s and 0.3 s have the total time 0.6000000000000001, and in the opposite order
  the total time 0.6.\<close>

theorem cost_order_counterexample:
  "snd (calculate_conversation_cost
          [timed_message (float_lit (1 / 10)), timed_message (float_lit (2 / 10)),
           timed_message (float_lit (3 / 10))] nano_pricing)
   \<noteq> snd (calculate_conversation_cost
          [timed_message (float_lit (3 / 10)), timed_message (float_lit (2 / 10)),
           timed_message (float_lit (1 / 10))] nano_pricing)"
proof -
  have t: "snd (calculate_conversation_cost [timed_message a, timed_message b, timed_message c] p)
             = fadd (fadd (fadd 0 a) b) c" for a b c p
    by (simp add: calculate_conversation_cost_def cost_step_def timed_message_def get_time_def)
  show ?thesis
    unfolding t sum_times_forward sum_times_backward by simp
qed

section \<open>Properties of the store\<close>

subsection \<open>Files and directories\<close>

lemma ensure_db_structure_files [simp]:
  "conversation_files (ensure_db_structure w) = conversation_files w"
  "current_file (ensure_db_structure w) = current_file w"
  "session (ensure_db_structure w) = session w"
  "write_fault (ensure_db_structure w) = write_fault w"
  by (simp_all add: ensure_db_structure_def conversation_files_def current_file_def split: option.splits)

lemma ensure_db_structure_dirs:
  assumes "dirs_usable w"
  shows "\<exists>d. db (ensure_db_structure w) = Some d
            \<and> conversations_dir d = Some (conversation_files w)
            \<and> current_json d = current_file w"
  using assms
  by (auto simp add: ensure_db_structure_def dirs_usable_def conversation_files_def current_file_def
      split: option.splits)

lemma new_conversation_id_ensure [simp]:
  "new_conversation_id (ensure_db_structure w) = new_conversation_id w"
  by (simp add: new_conversation_id_def conversation_ids_def)

lemma write_conversation_file_ok:
  assumes "db w = Some d" "conversations_dir d = Some fs" "write_fault w = None"
  shows "write_conversation_file k c w =
           (None, w\<lparr>db := Some (d\<lparr>conversations_dir := Some (AList.update k (Decoded c) fs)\<rparr>)\<rparr>)"
  using assms by (simp add: write_conversation_file_def dump_step_def)

lemma write_current_file_ok:
  assumes "db w = Some d" "write_fault w = None"
  shows "write_current_file cid w =
           (None, w\<lparr>db := Some (d\<lparr>current_json := Some (Decoded (Some cid))\<rparr>)\<rparr>)"
  using assms by (simp add: write_current_file_def dump_step_def)

lemma load_default_conversation:
  "load_conversation_to_state (default_conversation n) w =
     (None, w\<lparr>session := (session w)\<lparr>conversation_id := Some n,
                                         conversation_name := Some (default_name n),
                                         messages := Some [],
                                         chatbot_personality := Some DEFAULT_PERSONALITY\<rparr>\<rparr>)"
  by (simp add: load_conversation_to_state_def default_conversation_def)

lemma read_after_update:
  "map_of (AList.update k v fs) k' = (if k' = k then Some v else map_of fs k')"
  by (simp add: update_conv')

lemma unlink_conversation_file_obs [simp]:
  "conversation_files (unlink_conversation_file k w) = AList.delete k (conversation_files w)"
  "current_file (unlink_conversation_file k w) = current_file w"
  "session (unlink_conversation_file k w) = session w"
  "write_fault (unlink_conversation_file k w) = write_fault w"
  "dirs_usable (unlink_conversation_file k w) = dirs_usable w"
  by (simp_all add: unlink_conversation_file_def conversation_files_def current_file_def
      dirs_usable_def split: option.splits)

lemma unlink_existing_eq:
  "unlink_existing cid w = unlink_conversation_file (Canon cid) w"
proof (cases "read_conversation_file w (Canon cid)")
  case None
  then have "Canon cid \<notin> fst ` set (conversation_files w)"
    by (simp add: read_conversation_file_def map_of_eq_None_iff)
  then have "AList.delete (Canon cid) (conversation_files w) = conversation_files w" by simp
  then show ?thesis
    using None
    by (auto simp add: unlink_existing_def unlink_conversation_file_def conversation_files_def
        split: option.splits)
next
  case (Some a)
  then show ?thesis by (simp add: unlink_existing_def)
qed


lemma store_consistent_unlink:
  assumes "store_consistent w"
  shows "store_consistent (unlink_conversation_file k w)"
proof -
  have "set (AList.delete k (conversation_files w)) \<subseteq> set (conversation_files w)"
    by (auto simp add: AList.delete_eq)
  then show ?thesis
    using assms by (auto simp add: store_consistent_def distinct_delete list_all_iff)
qed

lemma str_int_small: "str_int 1 = ''1''" "str_int 2 = ''2''" "str_int 5 = ''5''"
  by (simp_all add: str_int_def str_nat.simps digit_char_def)

subsection \<open>The new id\<close>

lemma max_default_Max:
  "max_default xs d = (if xs = [] then d else Max (set xs))"
proof (cases xs)
  case Nil
  then show ?thesis by simp
next
  case (Cons a list)
  then show ?thesis using Max.set_eq_fold[of a list] by simp
qed

lemma new_conversation_id_eq:
  "new_conversation_id w =
     (if conversation_ids w = [] then 1 else Max (set (conversation_ids w)) + 1)"
  by (simp add: new_conversation_id_def max_default_Max)

lemma new_conversation_id_greater:
  "i \<in> set (conversation_ids w) \<Longrightarrow> i < new_conversation_id w"
proof -
  assume i: "i \<in> set (conversation_ids w)"
  then have "i \<le> Max (set (conversation_ids w))" by simp
  moreover from i have "conversation_ids w \<noteq> []" by auto
  ultimately show ?thesis by (simp add: new_conversation_id_eq)
qed


lemma conversation_ids_iff:
  "i \<in> set (conversation_ids w) \<longleftrightarrow> (\<exists>k \<in> fst ` set (conversation_files w). stem_int k = Some i)"
proof -
  have "set (List.map_filter f xs) = {y. \<exists>x \<in> set xs. f x = Some y}" for f :: "stem \<Rightarrow> int option" and xs
    by (induction xs) (auto simp add: List.map_filter_simps split: option.splits)
  then show ?thesis by (auto simp add: conversation_ids_def)
qed

lemma highest_id_eq:
  "highest_id w = (if conversation_ids w = [] then 0 else Max (set (conversation_ids w)))"
  by (simp add: highest_id_def max_default_Max)

lemma new_conversation_id_highest: "new_conversation_id w = highest_id w + 1"
  by (simp add: new_conversation_id_def highest_id_def)

lemma highest_id_cong:
  "conversation_files w' = conversation_files w \<Longrightarrow> highest_id w' = highest_id w"
  by (simp add: highest_id_def conversation_ids_def)

lemma highest_id_Max:
  assumes "n \<in> set (conversation_ids w)" "\<forall>i \<in> set (conversation_ids w). i \<le> n"
  shows "highest_id w = n"
proof -
  from assms(1) have ne: "conversation_ids w \<noteq> []" by auto
  have "Max (set (conversation_ids w)) = n"
    using assms by (intro Max_eqI) auto
  with ne show ?thesis by (simp add: highest_id_eq)
qed

lemma highest_id_ge: "i \<in> set (conversation_ids w) \<Longrightarrow> i \<le> highest_id w"
proof -
  assume i: "i \<in> set (conversation_ids w)"
  then have "i \<le> Max (set (conversation_ids w))" by simp
  moreover from i have "conversation_ids w \<noteq> []" by auto
  ultimately show ?thesis by (simp add: highest_id_eq)
qed

lemma highest_id_in: "conversation_ids w \<noteq> [] \<Longrightarrow> highest_id w \<in> set (conversation_ids w)"
  by (simp add: highest_id_eq)

lemma ids_after_update:
  assumes "conversation_files w' = AList.update (Canon n) x (conversation_files w)"
  shows "set (conversation_ids w') = insert n (set (conversation_ids w))"
  by (auto simp add: conversation_ids_iff assms dom_update)

lemma highest_id_after_update:
  assumes "conversation_files w' = AList.update (Canon (highest_id w + 1)) x (conversation_files w)"
  shows "highest_id w' = highest_id w + 1"
proof (rule highest_id_Max)
  note s = ids_after_update[OF assms]
  show "highest_id w + 1 \<in> set (conversation_ids w')" by (simp add: s)
  show "\<forall>i \<in> set (conversation_ids w'). i \<le> highest_id w + 1"
    using highest_id_ge[of _ w] by (fastforce simp add: s)
qed

lemma ids_after_unlink:
  "i \<in> set (conversation_ids (unlink_conversation_file k w)) \<longleftrightarrow>
     (\<exists>k' \<in> fst ` set (conversation_files w). k' \<noteq> k \<and> stem_int k' = Some i)"
proof -
  have "fst ` set (AList.delete k fs) = fst ` set fs - {k}" for fs :: "(stem \<times> conversation json_file) list"
    by (induction fs) auto
  then show ?thesis by (auto simp add: conversation_ids_iff)
qed

lemma ids_unlink_subset:
  assumes "i \<in> set (conversation_ids (unlink_conversation_file k w))"
  shows "i \<in> set (conversation_ids w)"
proof -
  from assms obtain k' where "k' \<in> fst ` set (conversation_files w)" "stem_int k' = Some i"
    unfolding ids_after_unlink by blast
  then show ?thesis unfolding conversation_ids_iff by blast
qed

lemma highest_id_unlink_other:
  assumes "cid \<noteq> highest_id w"
  shows "highest_id (unlink_conversation_file (Canon cid) w) = highest_id w"
proof (cases "conversation_ids w = []")
  case True
  have "i \<notin> set (conversation_ids (unlink_conversation_file (Canon cid) w))" for i
    using ids_unlink_subset[of i "Canon cid" w] True by auto
  then have "conversation_ids (unlink_conversation_file (Canon cid) w) = []"
    by (metis all_not_in_conv set_empty)
  then show ?thesis using True by (simp only: highest_id_eq if_True)
next
  case False
  from highest_id_in[OF False] obtain k where
    k: "k \<in> fst ` set (conversation_files w)" "stem_int k = Some (highest_id w)"
    by (auto simp add: conversation_ids_iff)
  from k(2) assms have "k \<noteq> Canon cid" by auto
  with k have "highest_id w \<in> set (conversation_ids (unlink_conversation_file (Canon cid) w))"
    unfolding ids_after_unlink by blast
  moreover have "\<forall>i \<in> set (conversation_ids (unlink_conversation_file (Canon cid) w)). i \<le> highest_id w"
    using highest_id_ge[of _ w] ids_unlink_subset[of _ "Canon cid" w] by blast
  ultimately show ?thesis by (rule highest_id_Max)
qed

lemma highest_id_unlink_highest:
  assumes "0 < highest_id w"
    and "\<forall>k \<in> fst ` set (conversation_files w). stem_int k = Some (highest_id w) \<longrightarrow> k = Canon (highest_id w)"
  shows "highest_id (unlink_conversation_file (Canon (highest_id w)) w) < highest_id w"
proof -
  let ?w1 = "unlink_conversation_file (Canon (highest_id w)) w"
  have lt: "i < highest_id w" if "i \<in> set (conversation_ids ?w1)" for i
  proof -
    from that obtain k where k: "k \<in> fst ` set (conversation_files w)" "k \<noteq> Canon (highest_id w)"
      "stem_int k = Some i" unfolding ids_after_unlink by blast
    from that have "i \<in> set (conversation_ids w)" by (rule ids_unlink_subset)
    then have "i \<le> highest_id w" by (rule highest_id_ge)
    moreover have "i \<noteq> highest_id w" using assms(2) k by auto
    ultimately show ?thesis by simp
  qed
  show ?thesis
  proof (cases "conversation_ids ?w1 = []")
    case True
    then show ?thesis using assms(1) by (simp add: highest_id_eq)
  next
    case False
    from lt[OF highest_id_in[OF False]] show ?thesis .
  qed
qed

subsection \<open>What the steps of a function do to the files\<close>

lemma dump_step_obs [simp]:
  "db (snd (dump_step w)) = db w"
  "session (snd (dump_step w)) = session w"
  by (simp_all add: dump_step_def split: option.splits prod.splits nat.splits)

lemma dump_step_None [simp]:
  "write_fault w = None \<Longrightarrow> dump_step w = (None, w)"
  by (simp add: dump_step_def)

lemma write_current_file_files [simp]:
  "conversation_files (snd (write_current_file cid w)) = conversation_files w"
proof (cases "db w")
  case None
  then show ?thesis by (simp add: write_current_file_def)
next
  case (Some d)
  obtain ct w1 where s: "dump_step w = (ct, w1)" by (cases "dump_step w")
  then show ?thesis
    using Some by (cases ct) (simp_all add: write_current_file_def conversation_files_def)
qed

lemma load_conversation_to_state_files [simp]:
  "conversation_files (snd (load_conversation_to_state c w)) = conversation_files w"
  by (simp add: load_conversation_to_state_def conversation_files_def split: option.splits)

lemma snd_and_then:
  "snd (and_then r k) = (if fst r = None then snd (k (snd r)) else snd r)"
  by (cases r) (simp add: and_then_def split: option.splits)

lemma fst_and_then:
  "fst (and_then r k) = (case fst r of None \<Rightarrow> fst (k (snd r)) | Some e \<Rightarrow> Raised e)"
  by (cases r) (simp add: and_then_def split: option.splits)

lemma write_conversation_file_files:
  "(fst (write_conversation_file k c w) = Some FileNotFoundError
      \<and> snd (write_conversation_file k c w) = w)
   \<or> (\<exists>x. conversation_files (snd (write_conversation_file k c w))
            = AList.update k x (conversation_files w))"
proof (cases "db w")
  case None
  then show ?thesis by (simp add: write_conversation_file_def)
next
  case (Some d)
  show ?thesis
  proof (cases "conversations_dir d")
    case None
    then show ?thesis using Some by (simp add: write_conversation_file_def)
  next
    case (Some fs)
    obtain ct w1 where s: "dump_step w = (ct, w1)" by (cases "dump_step w")
    have f: "conversation_files w = fs" using Some \<open>db w = Some d\<close> by (simp add: conversation_files_def)
    have "\<exists>x. conversation_files (snd (write_conversation_file k c w)) = AList.update k x fs"
      using Some \<open>db w = Some d\<close> s
      by (cases ct) (auto simp add: write_conversation_file_def conversation_files_def)
    then show ?thesis by (simp add: f)
  qed
qed

lemma conversation_files_frame [simp]:
  "conversation_files (w\<lparr>session := ss\<rparr>) = conversation_files w"
  "conversation_files (w\<lparr>write_fault := f\<rparr>) = conversation_files w"
  by (simp_all add: conversation_files_def)

lemma create_new_conversation_files:
  "conversation_files (snd (create_new_conversation w)) =
     conversation_files (snd (write_conversation_file (Canon (new_conversation_id w))
        (default_conversation (new_conversation_id w)) (ensure_db_structure w)))"
  by (simp add: create_new_conversation_def Let_def snd_and_then)

lemma create_new_conversation_Rerun:
  assumes "fst (create_new_conversation w) = Rerun"
  shows "fst (write_conversation_file (Canon (new_conversation_id w))
        (default_conversation (new_conversation_id w)) (ensure_db_structure w)) = None"
  using assms
  by (simp add: create_new_conversation_def Let_def fst_and_then split: option.splits)

lemma create_new_conversation_highest:
  "highest_id w \<le> highest_id (snd (create_new_conversation w))"
  "fst (create_new_conversation w) = Rerun \<Longrightarrow>
     highest_id (snd (create_new_conversation w)) = highest_id w + 1"
proof -
  let ?n = "new_conversation_id w"
  let ?r = "write_conversation_file (Canon ?n) (default_conversation ?n) (ensure_db_structure w)"
  have e: "highest_id (ensure_db_structure w) = highest_id w"
    by (rule highest_id_cong) simp
  have n: "?n = highest_id (ensure_db_structure w) + 1"
    by (simp add: e new_conversation_id_highest)
  have up: "highest_id (snd (create_new_conversation w)) = highest_id w + 1"
    if "conversation_files (snd ?r) = AList.update (Canon ?n) x (conversation_files (ensure_db_structure w))"
    for x
  proof -
    have "conversation_files (snd (create_new_conversation w)) =
            AList.update (Canon (highest_id (ensure_db_structure w) + 1)) x
              (conversation_files (ensure_db_structure w))"
      using that by (simp only: create_new_conversation_files n)
    from highest_id_after_update[OF this] show ?thesis by (simp only: e)
  qed
  from write_conversation_file_files[of "Canon ?n" "default_conversation ?n" "ensure_db_structure w"]
  show "highest_id w \<le> highest_id (snd (create_new_conversation w))"
  proof
    assume "fst ?r = Some FileNotFoundError \<and> snd ?r = ensure_db_structure w"
    then have "conversation_files (snd (create_new_conversation w)) = conversation_files w"
      by (simp add: create_new_conversation_files)
    from highest_id_cong[OF this] show ?thesis by simp
  next
    assume "\<exists>x. conversation_files (snd ?r) = AList.update (Canon ?n) x (conversation_files (ensure_db_structure w))"
    then obtain x where "conversation_files (snd ?r) = AList.update (Canon ?n) x (conversation_files (ensure_db_structure w))" ..
    from up[OF this] show ?thesis by simp
  qed
  assume "fst (create_new_conversation w) = Rerun"
  from create_new_conversation_Rerun[OF this]
    write_conversation_file_files[of "Canon ?n" "default_conversation ?n" "ensure_db_structure w"]
  obtain x where "conversation_files (snd ?r) = AList.update (Canon ?n) x (conversation_files (ensure_db_structure w))"
    by auto
  from up[OF this] show "highest_id (snd (create_new_conversation w)) = highest_id w + 1" .
qed

lemma switch_conversation_files [simp]:
  "conversation_files (snd (switch_conversation cid w)) = conversation_files w"
  by (simp add: switch_conversation_def snd_and_then split: option.splits json_file.splits)

lemma delete_conversation_cases:
  "(Some cid = conversation_id (session w)
      \<and> list_conversations (unlink_conversation_file (Canon cid) w) = Inr []
      \<and> delete_conversation cid w = create_new_conversation (unlink_conversation_file (Canon cid) w))
   \<or> (\<not> (Some cid = conversation_id (session w)
           \<and> list_conversations (unlink_conversation_file (Canon cid) w) = Inr [])
      \<and> conversation_files (snd (delete_conversation cid w))
          = conversation_files (unlink_conversation_file (Canon cid) w))"
  by (simp add: delete_conversation_def Let_def unlink_existing_eq
      split: sum.splits list.splits)

lemma delete_conversation_highest:
  assumes "cid \<noteq> highest_id w"
  shows "highest_id w \<le> highest_id (snd (delete_conversation cid w))"
proof -
  let ?w1 = "unlink_conversation_file (Canon cid) w"
  have h: "highest_id ?w1 = highest_id w" using assms by (rule highest_id_unlink_other)
  from delete_conversation_cases[of cid w] show ?thesis
  proof
    assume "Some cid = conversation_id (session w) \<and> list_conversations ?w1 = Inr []
            \<and> delete_conversation cid w = create_new_conversation ?w1"
    then show ?thesis using create_new_conversation_highest(1)[of ?w1] by (simp add: h)
  next
    assume "\<not> (Some cid = conversation_id (session w) \<and> list_conversations ?w1 = Inr [])
            \<and> conversation_files (snd (delete_conversation cid w)) = conversation_files ?w1"
    then have "highest_id (snd (delete_conversation cid w)) = highest_id ?w1"
      by (intro highest_id_cong) simp
    then show ?thesis by (simp add: h)
  qed
qed

subsection \<open>Sequences of creations and deletions\<close>

lemma highest_id_ensure [simp]: "highest_id (ensure_db_structure w) = highest_id w"
  by (rule highest_id_cong) simp

lemma created_ids_CreateNew:
  "created_ids (CreateNew # rest) w =
     (if fst (create_new_conversation w) = Rerun
      then (highest_id w + 1) # created_ids rest (snd (create_new_conversation w))
      else created_ids rest (snd (create_new_conversation w)))"
  by (cases "create_new_conversation w")
     (simp add: new_conversation_id_highest split: outcome.splits)

lemma created_ids_Delete:
  "created_ids (Delete cid # rest) w =
     (if Some cid = conversation_id (session w)
         \<and> list_conversations (unlink_conversation_file (Canon cid) w) = Inr []
         \<and> fst (delete_conversation cid w) = Rerun
      then (highest_id (unlink_conversation_file (Canon cid) w) + 1)
             # created_ids rest (snd (delete_conversation cid w))
      else created_ids rest (snd (delete_conversation cid w)))"
  by (cases "delete_conversation cid w")
     (simp add: unlink_existing_eq Let_def new_conversation_id_highest)

lemma created_ids_increasing:
  "keeps_highest acts w \<Longrightarrow>
     sorted_wrt (<) (created_ids acts w) \<and> (\<forall>j \<in> set (created_ids acts w). highest_id w < j)"
proof (induction acts arbitrary: w)
  case Nil
  then show ?case by simp
next
  case (Cons a acts)
  show ?case
  proof (cases a)
    case CreateNew
    let ?w' = "snd (create_new_conversation w)"
    from Cons.prems CreateNew have "keeps_highest acts ?w'" by simp
    from Cons.IH[OF this] have ih: "sorted_wrt (<) (created_ids acts ?w')"
      "\<forall>j \<in> set (created_ids acts ?w'). highest_id ?w' < j" by simp_all
    note h = create_new_conversation_highest[of w]
    show ?thesis
    proof (cases "fst (create_new_conversation w) = Rerun")
      case True
      with h(2) have "highest_id ?w' = highest_id w + 1" by simp
      with ih True show ?thesis
        unfolding CreateNew created_ids_CreateNew by fastforce
    next
      case False
      with ih h(1) show ?thesis
        unfolding CreateNew created_ids_CreateNew by fastforce
    qed
  next
    case (Delete cid)
    let ?w1 = "unlink_conversation_file (Canon cid) w"
    let ?w' = "snd (delete_conversation cid w)"
    from Cons.prems Delete have ne: "cid \<noteq> highest_id w" and "keeps_highest acts ?w'" by simp_all
    from Cons.IH[OF this(2)] have ih: "sorted_wrt (<) (created_ids acts ?w')"
      "\<forall>j \<in> set (created_ids acts ?w'). highest_id ?w' < j" by simp_all
    have h1: "highest_id ?w1 = highest_id w" using ne by (rule highest_id_unlink_other)
    note ge = delete_conversation_highest[OF ne]
    show ?thesis
    proof (cases "Some cid = conversation_id (session w) \<and> list_conversations ?w1 = Inr []
                  \<and> fst (delete_conversation cid w) = Rerun")
      case True
      with delete_conversation_cases[of cid w]
      have d: "delete_conversation cid w = create_new_conversation ?w1" by auto
      with True create_new_conversation_highest(2)[of ?w1]
      have "highest_id ?w' = highest_id w + 1" by (simp add: h1)
      with ih True show ?thesis
        unfolding Delete created_ids_Delete by (fastforce simp add: h1)
    next
      case False
      then have "created_ids (Delete cid # acts) w = created_ids acts ?w'"
        unfolding created_ids_Delete by auto
      with ih ge show ?thesis unfolding Delete by fastforce
    qed
  qed
qed

lemma keeps_highest_creations:
  "\<forall>a \<in> set acts. a = CreateNew \<Longrightarrow> keeps_highest acts w"
  by (induction acts arbitrary: w) auto

subsection \<open>Creating and switching\<close>

lemma create_new_conversation_result:
  assumes "dirs_usable w" "write_fault w = None"
  shows "\<exists>w'. create_new_conversation w = (Rerun, w')
          \<and> conversation_files w' =
              AList.update (Canon (new_conversation_id w))
                (Decoded (default_conversation (new_conversation_id w))) (conversation_files w)
          \<and> current_file w' = Some (Decoded (Some (new_conversation_id w)))
          \<and> session w' = (session w)\<lparr>conversation_id := Some (new_conversation_id w),
                                       conversation_name := Some (default_name (new_conversation_id w)),
                                       messages := Some [],
                                       chatbot_personality := Some DEFAULT_PERSONALITY\<rparr>
          \<and> write_fault w' = None \<and> dirs_usable w'"
proof -
  define w1 where "w1 = ensure_db_structure w"
  define n where "n = new_conversation_id w"
  define c where "c = default_conversation n"
  from ensure_db_structure_dirs[OF assms(1)] obtain d where
    d: "db w1 = Some d" "conversations_dir d = Some (conversation_files w)"
       "current_json d = current_file w" unfolding w1_def by blast
  have f: "write_fault w1 = None" using assms(2) by (simp add: w1_def)
  define d2 where "d2 = d\<lparr>conversations_dir := Some (AList.update (Canon n) (Decoded c) (conversation_files w))\<rparr>"
  define w2 where "w2 = w1\<lparr>db := Some d2\<rparr>"
  define w3 where "w3 = w2\<lparr>db := Some (d2\<lparr>current_json := Some (Decoded (Some n))\<rparr>)\<rparr>"
  define w4 where "w4 = w3\<lparr>session := (session w3)\<lparr>conversation_id := Some n,
                                         conversation_name := Some (default_name n),
                                         messages := Some [],
                                         chatbot_personality := Some DEFAULT_PERSONALITY\<rparr>\<rparr>"
  have s1: "write_conversation_file (Canon n) c w1 = (None, w2)"
    unfolding w2_def d2_def by (rule write_conversation_file_ok[OF d(1) d(2) f])
  have s2: "write_current_file n w2 = (None, w3)"
    unfolding w3_def by (rule write_current_file_ok) (simp_all add: w2_def f)
  have s3: "load_conversation_to_state c w3 = (None, w4)"
    unfolding w4_def c_def by (rule load_default_conversation)
  have r: "create_new_conversation w =
             (Rerun, w4\<lparr>session := (session w4)\<lparr>chatbot_personality := Some DEFAULT_PERSONALITY\<rparr>\<rparr>)"
  proof -
    have nw: "new_conversation_id w1 = n" by (simp add: n_def w1_def)
    show ?thesis
      by (simp add: create_new_conversation_def Let_def and_then_def nw s1 s2 s3
          flip: w1_def c_def)
  qed
  show ?thesis
    unfolding r n_def[symmetric] c_def[symmetric]
    by (simp add: w4_def w3_def w2_def d2_def conversation_files_def current_file_def
        dirs_usable_def assms(2) w1_def)
qed


text \<open>A disk that does not fail and the directories stay as they are through a switch and
  through a deletion, however they end.\<close>

lemma write_current_file_writable:
  assumes "dirs_usable w" "write_fault w = None"
  shows "dirs_usable (snd (write_current_file cid w)) \<and> write_fault (snd (write_current_file cid w)) = None"
  using assms
  by (cases "db w") (simp_all add: write_current_file_def dirs_usable_def)

lemma load_conversation_to_state_writable:
  assumes "dirs_usable w" "write_fault w = None"
  shows "dirs_usable (snd (load_conversation_to_state c w))
       \<and> write_fault (snd (load_conversation_to_state c w)) = None"
  using assms
  by (simp add: load_conversation_to_state_def dirs_usable_def split: option.splits)

lemma switch_conversation_writable:
  assumes "dirs_usable w" "write_fault w = None"
  shows "dirs_usable (snd (switch_conversation cid w)) \<and> write_fault (snd (switch_conversation cid w)) = None"
proof -
  have "dirs_usable (snd (and_then (write_current_file cid w) (\<lambda>w.
            and_then (load_conversation_to_state c w) (\<lambda>w. (Rerun, w)))))
      \<and> write_fault (snd (and_then (write_current_file cid w) (\<lambda>w.
            and_then (load_conversation_to_state c w) (\<lambda>w. (Rerun, w))))) = None" for c
    using write_current_file_writable[OF assms, of cid]
      load_conversation_to_state_writable[of "snd (write_current_file cid w)" c]
    by (simp add: snd_and_then)
  then show ?thesis
    using assms by (simp add: switch_conversation_def split: option.splits json_file.splits)
qed

lemma delete_conversation_writable:
  assumes "dirs_usable w" "write_fault w = None"
  shows "dirs_usable (snd (delete_conversation cid w)) \<and> write_fault (snd (delete_conversation cid w)) = None"
proof -
  let ?w1 = "unlink_conversation_file (Canon cid) w"
  have u: "dirs_usable ?w1" "write_fault ?w1 = None" using assms by simp_all
  from create_new_conversation_result[OF u]
  have c: "dirs_usable (snd (create_new_conversation ?w1))
         \<and> write_fault (snd (create_new_conversation ?w1)) = None" by auto
  note s = switch_conversation_writable[OF u]
  show ?thesis
    using u c s
    by (simp add: delete_conversation_def Let_def unlink_existing_eq split: sum.splits list.splits)
qed

lemma created_ids_after_delete:
  assumes "dirs_usable w" "write_fault w = None"
  shows "\<exists>ns. created_ids (Delete cid # CreateNew # rest) w =
               (highest_id (unlink_conversation_file (Canon cid) w) + 1) # ns"
proof -
  let ?w1 = "unlink_conversation_file (Canon cid) w"
  let ?w' = "snd (delete_conversation cid w)"
  have u: "dirs_usable ?w1" "write_fault ?w1 = None" using assms by simp_all
  note wr = delete_conversation_writable[OF assms, of cid]
  show ?thesis
  proof (cases "Some cid = conversation_id (session w) \<and> list_conversations ?w1 = Inr []")
    case True
    with delete_conversation_cases[of cid w]
    have "delete_conversation cid w = create_new_conversation ?w1" by auto
    with create_new_conversation_result[OF u] have "fst (delete_conversation cid w) = Rerun" by auto
    with True show ?thesis unfolding created_ids_Delete by simp
  next
    case False
    with delete_conversation_cases[of cid w]
    have "conversation_files ?w' = conversation_files ?w1" by auto
    then have h: "highest_id ?w' = highest_id ?w1" by (rule highest_id_cong)
    from wr create_new_conversation_result[of ?w']
    have "fst (create_new_conversation ?w') = Rerun" by auto
    with False show ?thesis unfolding created_ids_Delete created_ids_CreateNew by (auto simp add: h)
  qed
qed

subsection \<open>The list of conversations\<close>



lemma sorted_desc_empty: "sorted_desc xs = [] \<longleftrightarrow> xs = []"
proof -
  have "set (sorted_desc xs) = set xs" by (simp add: sorted_desc_def)
  then show ?thesis by (metis set_empty)
qed

lemma list_entry_Inl: "list_entry f = Inl e \<longleftrightarrow> f = Undecodable \<and> e = UnicodeDecodeError"
  by (auto simp add: list_entry_def split: json_file.splits option.splits)


lemma list_loop_undecodable:
  "\<not> list_all (\<lambda>f. f \<noteq> Undecodable) fs \<Longrightarrow> list_loop fs acc = Inl UnicodeDecodeError"
proof (induction fs arbitrary: acc)
  case Nil
  then show ?case by simp
next
  case (Cons f fs)
  show ?case
  proof (cases "list_entry f")
    case (Inl e)
    then have "list_entry f = Inl UnicodeDecodeError" by (simp add: list_entry_Inl)
    then show ?thesis by simp
  next
    case (Inr x)
    then have "f \<noteq> Undecodable" using list_entry_Inl[of f UnicodeDecodeError] by auto
    with Cons.prems have "\<not> list_all (\<lambda>f. f \<noteq> Undecodable) fs" by simp
    from Cons.IH[OF this] Inr show ?thesis by (cases x) simp_all
  qed
qed

lemma readable_store_iff:
  "readable_store w \<longleftrightarrow> list_all (\<lambda>f. f \<noteq> Undecodable) (map snd (conversation_files w))"
  by (simp add: readable_store_def list_all_iff)


lemma list_conversations_undecodable:
  "\<not> readable_store w \<Longrightarrow> list_conversations w = Inl UnicodeDecodeError"
  by (simp add: list_conversations_def readable_store_iff list_loop_undecodable)






lemma readable_store_unlink:
  "readable_store w \<Longrightarrow> readable_store (unlink_conversation_file k w)"
proof -
  have "set (AList.delete k (conversation_files w)) \<subseteq> set (conversation_files w)"
    by (auto simp add: AList.delete_eq)
  then show "readable_store w \<Longrightarrow> readable_store (unlink_conversation_file k w)"
    by (auto simp add: readable_store_def list_all_iff)
qed

subsection \<open>The invariants of the store\<close>

text \<open>Every database function keeps the store consistent and its directories usable,
  also when a write fails; so every state the program can be in has both properties. On a
  disk that does not fail, every function also leaves every file readable.\<close>

lemma store_ok_frame [simp]:
  "store_ok (w\<lparr>session := ss\<rparr>) = store_ok w"
  "store_ok (w\<lparr>write_fault := f\<rparr>) = store_ok w"
  by (simp_all add: store_ok_def store_consistent_def dirs_usable_def conversation_files_def)

lemma record_consistent_unreadable:
  "record_consistent (k, Malformed)" "record_consistent (k, Undecodable)"
  "record_consistent (k, truncated ct c)"
  by (simp_all add: record_consistent_def list_entry_def truncated_def)

lemma record_consistent_Decoded:
  "conv_id c = Some i \<Longrightarrow> conv_messages c \<noteq> None \<Longrightarrow> conv_chatbot_personality c \<noteq> None \<Longrightarrow>
   record_consistent (Canon i, Decoded c)"
  by (simp add: record_consistent_def list_entry_def split: option.splits)

lemma consistent_update:
  assumes "distinct (map fst fs)" "list_all record_consistent fs" "record_consistent (k, f)"
  shows "distinct (map fst (AList.update k f fs)) \<and> list_all record_consistent (AList.update k f fs)"
proof -
  have "set (AList.update k f fs) \<subseteq> insert (k, f) (set fs)"
    by (induction fs) auto
  with assms show ?thesis by (auto simp add: distinct_update list_all_iff)
qed

lemma store_ok_write_conversation_file:
  assumes "store_ok w" "record_consistent (k, Decoded c)"
  shows "store_ok (snd (write_conversation_file k c w))"
proof (cases "db w")
  case None
  then show ?thesis using assms(1) by (simp add: write_conversation_file_def)
next
  case (Some d)
  from assms(1) Some obtain fs where fs: "conversations_dir d = Some fs"
    by (auto simp add: store_ok_def dirs_usable_def)
  from assms(1) Some fs have c: "distinct (map fst fs)" "list_all record_consistent fs"
    by (simp_all add: store_ok_def store_consistent_def conversation_files_def)
  note u1 = consistent_update[OF c assms(2)]
  note u2 = consistent_update[OF c record_consistent_unreadable(3)[of k _ c]]
  obtain ct w1 where s: "dump_step w = (ct, w1)" by (cases "dump_step w")
  show ?thesis
    using u1 u2 s
    by (cases ct)
       (simp_all add: write_conversation_file_def Some fs store_ok_def
          store_consistent_def dirs_usable_def conversation_files_def)
qed

lemma store_ok_write_current_file:
  assumes "store_ok w"
  shows "store_ok (snd (write_current_file cid w))"
proof (cases "db w")
  case None
  then show ?thesis using assms by (simp add: write_current_file_def)
next
  case (Some d)
  obtain ct w1 where s: "dump_step w = (ct, w1)" by (cases "dump_step w")
  show ?thesis
    using assms s Some
    by (cases ct)
       (simp_all add: write_current_file_def store_ok_def store_consistent_def
          dirs_usable_def conversation_files_def)
qed

lemma store_ok_load_conversation_to_state:
  "store_ok w \<Longrightarrow> store_ok (snd (load_conversation_to_state c w))"
  by (auto simp add: load_conversation_to_state_def store_ok_def store_consistent_def
      dirs_usable_def conversation_files_def split: option.splits)

lemma store_ok_ensure: "store_ok w \<Longrightarrow> store_ok (ensure_db_structure w)"
  by (auto simp add: ensure_db_structure_def store_ok_def store_consistent_def
      dirs_usable_def conversation_files_def split: option.splits)

lemma store_ok_and_then:
  assumes "store_ok (snd r)" "\<And>w. store_ok w \<Longrightarrow> store_ok (snd (k w))"
  shows "store_ok (snd (and_then r k))"
  using assms by (cases r) (auto simp add: and_then_def split: option.splits)

lemma default_conversation_consistent: "record_consistent (Canon n, Decoded (default_conversation n))"
  by (rule record_consistent_Decoded) (simp_all add: default_conversation_def)

lemma store_ok_create:
  assumes "store_ok w"
  shows "store_ok (snd (create_new_conversation w))"
  unfolding create_new_conversation_def Let_def
  by (intro store_ok_and_then store_ok_write_conversation_file store_ok_write_current_file
      store_ok_load_conversation_to_state store_ok_ensure assms default_conversation_consistent)
     simp_all

lemma store_ok_save:
  assumes "store_ok w"
  shows "store_ok (snd (save_conversation w))"
  unfolding save_conversation_def Let_def
  by (intro store_ok_and_then store_ok_write_conversation_file assms record_consistent_Decoded)
     (simp_all add: active_snapshot_def)

lemma store_ok_switch:
  assumes "store_ok w"
  shows "store_ok (snd (switch_conversation cid w))"
proof -
  have "store_ok (snd (and_then (write_current_file cid w) (\<lambda>w.
          and_then (load_conversation_to_state c w) (\<lambda>w. (Rerun, w)))))" for c
    by (intro store_ok_and_then store_ok_write_current_file store_ok_load_conversation_to_state
        assms) simp_all
  then show ?thesis
    using assms by (simp add: switch_conversation_def split: option.splits json_file.splits)
qed

lemma store_ok_load:
  assumes "store_ok w"
  shows "store_ok (snd (load_current_conversation w))"
proof -
  define w1 where "w1 = ensure_db_structure w"
  have ok: "store_ok w1" unfolding w1_def using assms by (rule store_ok_ensure)
  have ld: "store_ok (snd (and_then (load_conversation_to_state c w1) (\<lambda>w. (Returned, w))))" for c
    by (intro store_ok_and_then store_ok_load_conversation_to_state ok) simp_all
  have rc: "record_consistent (Canon 1, Decoded \<lparr>conv_id = Some 1,
              conv_name = Some ''Pierwsza konwersacja'',
              conv_chatbot_personality = Some DEFAULT_PERSONALITY, conv_messages = Some []\<rparr>)"
    by (rule record_consistent_Decoded) simp_all
  have first: "store_ok (snd (and_then (write_conversation_file (Canon 1)
                   \<lparr>conv_id = Some 1, conv_name = Some ''Pierwsza konwersacja'',
                    conv_chatbot_personality = Some DEFAULT_PERSONALITY, conv_messages = Some []\<rparr> w1) (\<lambda>w.
                 and_then (write_current_file 1 w) (\<lambda>w.
                 and_then (load_conversation_to_state
                   \<lparr>conv_id = Some 1, conv_name = Some ''Pierwsza konwersacja'',
                    conv_chatbot_personality = Some DEFAULT_PERSONALITY, conv_messages = Some []\<rparr> w)
                   (\<lambda>w. (Returned, w))))))"
    by (intro store_ok_and_then store_ok_write_conversation_file store_ok_write_current_file
        store_ok_load_conversation_to_state ok rc) simp_all
  show ?thesis
    using ok ld first
    by (simp add: load_current_conversation_def Let_def
        split: option.splits json_file.splits flip: w1_def)
qed

lemma store_ok_unlink: "store_ok w \<Longrightarrow> store_ok (unlink_conversation_file k w)"
  by (simp add: store_ok_def store_consistent_unlink)

lemma store_ok_delete:
  assumes "store_ok w"
  shows "store_ok (snd (delete_conversation cid w))"
proof -
  define w1 where "w1 = unlink_conversation_file (Canon cid) w"
  have ok: "store_ok w1" unfolding w1_def using assms by (rule store_ok_unlink)
  show ?thesis
    unfolding delete_conversation_def Let_def unlink_existing_eq w1_def[symmetric]
    using ok store_ok_create[OF ok] store_ok_switch[OF ok]
    by (simp split: sum.splits list.splits)
qed

lemma reachable_store_ok: "reachable faults w \<Longrightarrow> store_ok w"
proof (induction rule: reachable.induct)
  case (first_run f ss)
  then show ?case
    by (simp add: store_ok_def store_consistent_def dirs_usable_def conversation_files_def)
qed (simp_all add: store_ok_load store_ok_save store_ok_create store_ok_switch store_ok_delete)

lemma sound_disk_frame [simp]:
  "sound_disk (w\<lparr>session := ss\<rparr>) = sound_disk w"
  by (simp add: sound_disk_def readable_store_def)

lemma sound_disk_write_conversation_file:
  assumes "sound_disk w"
  shows "sound_disk (snd (write_conversation_file k c w))"
proof (cases "db w")
  case None
  then show ?thesis using assms by (simp add: write_conversation_file_def)
next
  case (Some d)
  show ?thesis
  proof (cases "conversations_dir d")
    case None
    then show ?thesis using assms Some by (simp add: write_conversation_file_def)
  next
    case (Some fs)
    have "set (AList.update k (Decoded c) fs) \<subseteq> insert (k, Decoded c) (set fs)"
      by (induction fs) auto
    then show ?thesis
      using assms Some \<open>db w = Some d\<close>
      by (auto simp add: write_conversation_file_def sound_disk_def readable_store_def
          conversation_files_def list_all_iff)
  qed
qed

lemma sound_disk_write_current_file:
  assumes "sound_disk w"
  shows "sound_disk (snd (write_current_file cid w))"
  using assms
  by (cases "db w")
     (simp_all add: write_current_file_def sound_disk_def readable_store_def conversation_files_def)

lemma sound_disk_load_conversation_to_state:
  "sound_disk w \<Longrightarrow> sound_disk (snd (load_conversation_to_state c w))"
  by (simp add: load_conversation_to_state_def split: option.splits)

lemma sound_disk_ensure: "sound_disk w \<Longrightarrow> sound_disk (ensure_db_structure w)"
  by (simp add: sound_disk_def readable_store_def)

lemma sound_disk_unlink: "sound_disk w \<Longrightarrow> sound_disk (unlink_conversation_file k w)"
  by (simp add: sound_disk_def readable_store_unlink)

lemma sound_disk_and_then:
  assumes "sound_disk (snd r)" "\<And>w. sound_disk w \<Longrightarrow> sound_disk (snd (k w))"
  shows "sound_disk (snd (and_then r k))"
  using assms by (cases r) (auto simp add: and_then_def split: option.splits)

lemma sound_disk_create:
  assumes "sound_disk w"
  shows "sound_disk (snd (create_new_conversation w))"
  unfolding create_new_conversation_def Let_def
  by (intro sound_disk_and_then sound_disk_write_conversation_file sound_disk_write_current_file
      sound_disk_load_conversation_to_state sound_disk_ensure assms)
     simp_all

lemma sound_disk_save:
  assumes "sound_disk w"
  shows "sound_disk (snd (save_conversation w))"
  unfolding save_conversation_def Let_def
  by (intro sound_disk_and_then sound_disk_write_conversation_file assms) simp_all

lemma sound_disk_switch:
  assumes "sound_disk w"
  shows "sound_disk (snd (switch_conversation cid w))"
proof -
  have "sound_disk (snd (and_then (write_current_file cid w) (\<lambda>w.
          and_then (load_conversation_to_state c w) (\<lambda>w. (Rerun, w)))))" for c
    by (intro sound_disk_and_then sound_disk_write_current_file
        sound_disk_load_conversation_to_state assms) simp_all
  then show ?thesis
    using assms by (simp add: switch_conversation_def split: option.splits json_file.splits)
qed

lemma sound_disk_load:
  assumes "sound_disk w"
  shows "sound_disk (snd (load_current_conversation w))"
proof -
  define w1 where "w1 = ensure_db_structure w"
  have ok: "sound_disk w1" unfolding w1_def using assms by (rule sound_disk_ensure)
  have ld: "sound_disk (snd (and_then (load_conversation_to_state c w1) (\<lambda>w. (Returned, w))))" for c
    by (intro sound_disk_and_then sound_disk_load_conversation_to_state ok) simp_all
  have first: "sound_disk (snd (and_then (write_conversation_file (Canon 1) c w1) (\<lambda>w.
                 and_then (write_current_file 1 w) (\<lambda>w.
                 and_then (load_conversation_to_state c w) (\<lambda>w. (Returned, w))))))" for c
    by (intro sound_disk_and_then sound_disk_write_conversation_file sound_disk_write_current_file
        sound_disk_load_conversation_to_state ok) simp_all
  show ?thesis
    using ok ld first
    by (simp add: load_current_conversation_def Let_def
        split: option.splits json_file.splits flip: w1_def)
qed

lemma sound_disk_delete:
  assumes "sound_disk w"
  shows "sound_disk (snd (delete_conversation cid w))"
proof -
  define w1 where "w1 = unlink_conversation_file (Canon cid) w"
  have ok: "sound_disk w1" unfolding w1_def using assms by (rule sound_disk_unlink)
  show ?thesis
    unfolding delete_conversation_def Let_def unlink_existing_eq w1_def[symmetric]
    using ok sound_disk_create[OF ok] sound_disk_switch[OF ok]
    by (simp split: sum.splits list.splits)
qed

lemma reachable_sound_disk: "reachable False w \<Longrightarrow> sound_disk w"
proof (induction rule: reachable.induct)
  case (first_run f ss)
  then show ?case
    by (simp add: sound_disk_def readable_store_def conversation_files_def)
qed (simp_all add: sound_disk_load sound_disk_save sound_disk_create sound_disk_switch
      sound_disk_delete)

subsection \<open>The example states\<close>

lemma non_ascii_DEFAULT_PERSONALITY: "non_ascii DEFAULT_PERSONALITY"
  by (simp add: non_ascii_def DEFAULT_PERSONALITY_def)

lemma non_ascii_text_default: "non_ascii_text (default_conversation n)"
  by (simp add: non_ascii_text_def default_conversation_def non_ascii_DEFAULT_PERSONALITY)


lemma custom_world_ok:
  "store_consistent custom_world" "dirs_usable custom_world" "write_fault custom_world = None"
  "readable_store custom_world" "conversation_id (session custom_world) = Some 1"
  by (simp_all add: store_consistent_def custom_world_def conversation_files_def dirs_usable_def
      record_consistent_def list_entry_def custom_conversation_def custom_session_def
      readable_store_def)




lemmas eval_defs =
  create_new_conversation_def delete_conversation_def switch_conversation_def
  ensure_db_structure_def new_conversation_id_def conversation_ids_def conversation_files_def
  read_conversation_file_def current_file_def unlink_conversation_file_def unlink_existing_def
  write_conversation_file_def write_current_file_def dump_step_def and_then_def
  load_conversation_to_state_def default_conversation_def highest_id_def
  list_conversations_def sorted_desc_def list_entry_def List.map_filter_simps Let_def

section \<open>Creating conversations\<close>

text \<open>
  Claim C9, as amended. In every state in which the store can be written (the directories
  are there or can be made, and no write fails), \<^verbatim>\<open>create_new_conversation\<close> runs to its
  \<^verbatim>\<open>st.rerun()\<close>; the record it wrote under the new id has the name
  \<^verbatim>\<open>f"Konwersacja {new_id}"\<close>, the default personality and no message, the pointer is the
  new id, and the active conversation of the session has that name and the default
  personality, whatever the personality of the session was before. The name is the
  Polish text \<^verbatim>\<open>"Konwersacja "\<close> followed by the id, not \<^verbatim>\<open>"Conversation "\<close>
  followed by it.
\<close>

theorem create_new_conversation_defaults:
  assumes "dirs_usable w" "write_fault w = None"
  shows "\<exists>w'. create_new_conversation w = (Rerun, w')
          \<and> read_conversation_file w' (Canon (new_conversation_id w)) =
              Some (Decoded \<lparr>conv_id = Some (new_conversation_id w),
                             conv_name = Some (''Konwersacja '' @ str_int (new_conversation_id w)),
                             conv_chatbot_personality = Some DEFAULT_PERSONALITY,
                             conv_messages = Some []\<rparr>)
          \<and> current_file w' = Some (Decoded (Some (new_conversation_id w)))
          \<and> conversation_id (session w') = Some (new_conversation_id w)
          \<and> conversation_name (session w') = Some (''Konwersacja '' @ str_int (new_conversation_id w))
          \<and> chatbot_personality (session w') = Some DEFAULT_PERSONALITY
          \<and> messages (session w') = Some []"
proof -
  from create_new_conversation_result[OF assms] obtain w' where
    r: "create_new_conversation w = (Rerun, w')"
    and f: "conversation_files w' =
              AList.update (Canon (new_conversation_id w))
                (Decoded (default_conversation (new_conversation_id w))) (conversation_files w)"
    and c: "current_file w' = Some (Decoded (Some (new_conversation_id w)))"
    and s: "session w' = (session w)\<lparr>conversation_id := Some (new_conversation_id w),
                                       conversation_name := Some (default_name (new_conversation_id w)),
                                       messages := Some [],
                                       chatbot_personality := Some DEFAULT_PERSONALITY\<rparr>"
    by blast
  show ?thesis
    by (simp add: r read_conversation_file_def f read_after_update c s default_conversation_def
        default_name_def)
qed

theorem create_new_conversation_defaults_witness:
  "dirs_usable custom_world \<and> write_fault custom_world = None
   \<and> chatbot_personality (session custom_world) = Some ''Odpowiadaj jak pirat.''
   \<and> chatbot_personality (session (snd (create_new_conversation custom_world))) = Some DEFAULT_PERSONALITY
   \<and> conversation_name (session (snd (create_new_conversation custom_world))) = Some ''Konwersacja 2''
   \<and> read_conversation_file (snd (create_new_conversation custom_world)) (Canon 2) =
        Some (Decoded \<lparr>conv_id = Some 2, conv_name = Some ''Konwersacja 2'',
                       conv_chatbot_personality = Some DEFAULT_PERSONALITY,
                       conv_messages = Some []\<rparr>)"
proof -
  have h: "dirs_usable custom_world" "write_fault custom_world = None"
    by (simp_all add: dirs_usable_def custom_world_def)
  have n: "new_conversation_id custom_world = 2"
    by (simp add: new_conversation_id_def conversation_ids_def conversation_files_def
        custom_world_def List.map_filter_simps)
  have p: "chatbot_personality (session custom_world) = Some ''Odpowiadaj jak pirat.''"
    by (simp add: custom_world_def custom_session_def)
  from create_new_conversation_defaults[OF h, unfolded n] show ?thesis
    using h p by (auto simp add: str_int_small)
qed

text \<open>A conversation is created in the store that holds conversation 1: it gets the id
  2, and its name, in the record and in the session, is \<^verbatim>\<open>"Konwersacja 2"\<close>, which is
  not \<^verbatim>\<open>"Conversation 2"\<close>.\<close>

theorem create_new_conversation_name_counterexample:
  "fst (create_new_conversation custom_world) = Rerun
   \<and> conversation_id (session (snd (create_new_conversation custom_world))) = Some 2
   \<and> conversation_name (session (snd (create_new_conversation custom_world))) = Some ''Konwersacja 2''
   \<and> read_conversation_file (snd (create_new_conversation custom_world)) (Canon 2) =
        Some (Decoded \<lparr>conv_id = Some 2, conv_name = Some ''Konwersacja 2'',
                       conv_chatbot_personality = Some DEFAULT_PERSONALITY,
                       conv_messages = Some []\<rparr>)
   \<and> conversation_name (session (snd (create_new_conversation custom_world)))
       \<noteq> Some (''Conversation '' @ str_int 2)"
  by (simp add: eval_defs custom_world_def custom_session_def default_name_def str_int_small)

text \<open>
  Claim C1, as amended. \<^verbatim>\<open>create_new_conversation\<close> gives the new conversation the
  greatest id among the files of the store plus one, and 1 when no file has an id; the new
  id is therefore greater than every id in the store at that moment. Along a sequence of
  creations and deletions in which no deletion is called with the greatest id of its
  moment (in particular along a sequence of creations), every call of
  \<^verbatim>\<open>create_new_conversation\<close>, the one that \<^verbatim>\<open>delete_conversation\<close> makes on an emptied
  list included, assigns an id greater than all ids assigned before and all ids of the
  initial store. An id is not remembered once its file is deleted: the first id assigned
  after \<^verbatim>\<open>delete_conversation(cid)\<close> is the greatest id among the remaining files plus one
  (\<open>highest_id\<close> is that greatest id, 0 when there is none), and when \<open>cid\<close> was the greatest
  id, held by the file \<^verbatim>\<open>f"{cid}.json"\<close> only, that first id is not greater than \<open>cid\<close>.
\<close>

theorem new_conversation_id_allocation:
  assumes "dirs_usable w" "write_fault w = None"
  shows "(\<exists>w'. create_new_conversation w = (Rerun, w')
             \<and> conversation_id (session w') = Some (new_conversation_id w)
             \<and> read_conversation_file w' (Canon (new_conversation_id w))
                 = Some (Decoded (default_conversation (new_conversation_id w))))
       \<and> new_conversation_id w =
           (if conversation_ids w = [] then 1 else Max (set (conversation_ids w)) + 1)
       \<and> (\<forall>i \<in> set (conversation_ids w). i < new_conversation_id w)
       \<and> ((\<forall>a \<in> set acts. a = CreateNew) \<longrightarrow> sorted_wrt (<) (created_ids acts w))
       \<and> (keeps_highest acts w \<longrightarrow>
            sorted_wrt (<) (created_ids acts w)
          \<and> (\<forall>j \<in> set (created_ids acts w). \<forall>i \<in> set (conversation_ids w). i < j))
       \<and> highest_id w = (if conversation_ids w = [] then 0 else Max (set (conversation_ids w)))
       \<and> (\<exists>ns. created_ids (Delete cid # CreateNew # rest) w =
                 (highest_id (unlink_conversation_file (Canon cid) w) + 1) # ns)
       \<and> (0 < highest_id w
          \<and> (\<forall>k \<in> fst ` set (conversation_files w).
                stem_int k = Some (highest_id w) \<longrightarrow> k = Canon (highest_id w)) \<longrightarrow>
            (\<exists>n ns. created_ids (Delete (highest_id w) # CreateNew # rest) w = n # ns
                   \<and> n \<le> highest_id w))"
proof -
  from create_new_conversation_result[OF assms] obtain w' where
    r: "create_new_conversation w = (Rerun, w')"
    and f: "conversation_files w' =
              AList.update (Canon (new_conversation_id w))
                (Decoded (default_conversation (new_conversation_id w))) (conversation_files w)"
    and s: "session w' = (session w)\<lparr>conversation_id := Some (new_conversation_id w),
                                       conversation_name := Some (default_name (new_conversation_id w)),
                                       messages := Some [],
                                       chatbot_personality := Some DEFAULT_PERSONALITY\<rparr>"
    by blast
  have 1: "\<exists>w'. create_new_conversation w = (Rerun, w')
             \<and> conversation_id (session w') = Some (new_conversation_id w)
             \<and> read_conversation_file w' (Canon (new_conversation_id w))
                 = Some (Decoded (default_conversation (new_conversation_id w)))"
    by (simp add: r s read_conversation_file_def f read_after_update)
  have 2: "sorted_wrt (<) (created_ids acts w)
         \<and> (\<forall>j \<in> set (created_ids acts w). \<forall>i \<in> set (conversation_ids w). i < j)"
    if "keeps_highest acts w"
  proof -
    from created_ids_increasing[OF that] have "sorted_wrt (<) (created_ids acts w)"
      and "\<forall>j \<in> set (created_ids acts w). highest_id w < j" by simp_all
    then show ?thesis using highest_id_ge[of _ w] by fastforce
  qed
  have 3: "sorted_wrt (<) (created_ids acts w)" if "\<forall>a \<in> set acts. a = CreateNew"
    using created_ids_increasing[OF keeps_highest_creations[OF that, of w]] by simp
  have 4: "\<exists>n ns. created_ids (Delete (highest_id w) # CreateNew # rest) w = n # ns
                 \<and> n \<le> highest_id w"
    if "0 < highest_id w"
      "\<forall>k \<in> fst ` set (conversation_files w).
          stem_int k = Some (highest_id w) \<longrightarrow> k = Canon (highest_id w)"
    using created_ids_after_delete[OF assms, of "highest_id w" rest]
      highest_id_unlink_highest[OF that] by auto
  show ?thesis
    using 1 2 3 4 new_conversation_id_eq[of w] new_conversation_id_greater[of _ w]
      highest_id_eq[of w] created_ids_after_delete[OF assms, of cid rest]
    by blast
qed

theorem new_conversation_id_allocation_witness:
  "dirs_usable custom_world \<and> write_fault custom_world = None
   \<and> conversation_ids custom_world = [1]
   \<and> new_conversation_id custom_world = 2
   \<and> created_ids [CreateNew, CreateNew, CreateNew] custom_world = [2, 3, 4]
   \<and> sorted_wrt (<) (created_ids [CreateNew, CreateNew, CreateNew] custom_world)
   \<and> keeps_highest [CreateNew, Delete 1, CreateNew] custom_world
   \<and> created_ids [CreateNew, Delete 1, CreateNew] custom_world = [2, 3]
   \<and> sorted_wrt (<) (created_ids [CreateNew, Delete 1, CreateNew] custom_world)
   \<and> highest_id custom_world = 1
   \<and> map fst (conversation_files custom_world) = [Canon 1]
   \<and> created_ids [Delete 1, CreateNew] custom_world = [1, 2]
   \<and> (\<exists>n ns. created_ids (Delete (highest_id custom_world) # CreateNew # []) custom_world = n # ns
            \<and> n \<le> highest_id custom_world)"
proof -
  have i: "conversation_ids custom_world = [1]"
    by (simp add: conversation_ids_def custom_world_def conversation_files_def List.map_filter_simps)
  have h: "highest_id custom_world = 1" by (simp add: highest_id_def i)
  have n: "new_conversation_id custom_world = 2" by (simp add: new_conversation_id_def i)
  have c: "created_ids [CreateNew, CreateNew, CreateNew] custom_world = [2, 3, 4]"
    by (simp add: eval_defs custom_world_def)
  have k: "keeps_highest [CreateNew, Delete 1, CreateNew] custom_world"
    by (simp add: eval_defs custom_world_def custom_session_def)
  have d: "created_ids [CreateNew, Delete 1, CreateNew] custom_world = [2, 3]"
    by (simp add: eval_defs custom_world_def custom_session_def)
  have e: "created_ids [Delete 1, CreateNew] custom_world = [1, 2]"
    by (simp add: eval_defs custom_world_def custom_session_def)
  have o: "\<forall>k \<in> fst ` set (conversation_files custom_world).
             stem_int k = Some (highest_id custom_world) \<longrightarrow> k = Canon (highest_id custom_world)"
    by (simp add: h conversation_files_def custom_world_def)
  have m: "map fst (conversation_files custom_world) = [Canon 1]"
    by (simp add: conversation_files_def custom_world_def)
  from new_conversation_id_allocation[OF custom_world_ok(2,3),
         of "[CreateNew, CreateNew, CreateNew]" 1 "[]"]
       new_conversation_id_allocation[OF custom_world_ok(2,3),
         of "[CreateNew, Delete 1, CreateNew]" 1 "[]"]
  show ?thesis using custom_world_ok(2,3) i h n c k d e o m by simp
qed

text \<open>Two conversations are created on an empty store, the second one is deleted, and a
  third one is created: it gets the id 2 again.\<close>

theorem created_ids_reuse_counterexample:
  "created_ids [CreateNew, CreateNew, Delete 2, CreateNew] fresh_world = [1, 2, 2]
   \<and> \<not> sorted_wrt (<) (created_ids [CreateNew, CreateNew, Delete 2, CreateNew] fresh_world)
   \<and> \<not> distinct (created_ids [CreateNew, CreateNew, Delete 2, CreateNew] fresh_world)"
proof -
  have c: "created_ids [CreateNew, CreateNew, Delete 2, CreateNew] fresh_world = [1, 2, 2]"
    by (simp add: eval_defs fresh_world_def fresh_session_def)
  show ?thesis unfolding c by simp
qed

section \<open>Deleting the active conversation\<close>




section \<open>Loading the current conversation\<close>

text \<open>
  Claim C7, as amended. On an empty store (no directory \<^verbatim>\<open>db\<close>, or an empty one with
  its empty \<^verbatim>\<open>conversations\<close> directory) on which no write fails,
  \<^verbatim>\<open>load_current_conversation\<close> returns with exactly one conversation in the store: id 1,
  the name \<^verbatim>\<open>"Pierwsza konwersacja"\<close>, the default personality and no message; the
  pointer is 1 and the session holds that conversation. The name of the first
  conversation is this fixed text, not the pattern \<^verbatim>\<open>f"Konwersacja {id}"\<close> of the later
  ones.
\<close>

theorem load_current_conversation_first_run:
  assumes "db w = None \<or> db w = Some \<lparr>current_json = None, conversations_dir = Some []\<rparr>"
    and "write_fault w = None"
  shows "load_current_conversation w =
          (Returned,
           w\<lparr>db := Some \<lparr>current_json = Some (Decoded (Some 1)),
                          conversations_dir =
                            Some [(Canon 1, Decoded \<lparr>conv_id = Some 1,
                                                     conv_name = Some ''Pierwsza konwersacja'',
                                                     conv_chatbot_personality = Some DEFAULT_PERSONALITY,
                                                     conv_messages = Some []\<rparr>)]\<rparr>,
             session := (session w)\<lparr>conversation_id := Some 1,
                                     conversation_name := Some ''Pierwsza konwersacja'',
                                     messages := Some [],
                                     chatbot_personality := Some DEFAULT_PERSONALITY\<rparr>\<rparr>)"
  using assms
  by (auto simp add: load_current_conversation_def ensure_db_structure_def current_file_def Let_def
      and_then_def write_conversation_file_def write_current_file_def dump_step_def
      load_conversation_to_state_def)

theorem load_current_conversation_first_run_witness:
  "db fresh_world = None \<and> write_fault fresh_world = None
   \<and> fst (load_current_conversation fresh_world) = Returned
   \<and> conversation_files (snd (load_current_conversation fresh_world)) =
        [(Canon 1, Decoded \<lparr>conv_id = Some 1, conv_name = Some ''Pierwsza konwersacja'',
                            conv_chatbot_personality = Some DEFAULT_PERSONALITY,
                            conv_messages = Some []\<rparr>)]
   \<and> current_file (snd (load_current_conversation fresh_world)) = Some (Decoded (Some 1))"
proof -
  have h: "db fresh_world = None \<or> db fresh_world = Some \<lparr>current_json = None, conversations_dir = Some []\<rparr>"
     "write_fault fresh_world = None"
    by (simp_all add: fresh_world_def)
  from load_current_conversation_first_run[OF h] show ?thesis
    using h by (simp add: conversation_files_def current_file_def fresh_world_def)
qed

text \<open>The first run on a new machine: the name of the conversation it makes is not
  \<^verbatim>\<open>"Konwersacja 1"\<close>.\<close>

theorem first_conversation_name_counterexample:
  "load_current_conversation fresh_world =
     (Returned,
      \<lparr>db = Some \<lparr>current_json = Some (Decoded (Some 1)),
                   conversations_dir =
                     Some [(Canon 1, Decoded \<lparr>conv_id = Some 1,
                                              conv_name = Some ''Pierwsza konwersacja'',
                                              conv_chatbot_personality = Some DEFAULT_PERSONALITY,
                                              conv_messages = Some []\<rparr>)]\<rparr>,
       write_fault = None,
       session = fresh_session\<lparr>conversation_id := Some 1,
                               conversation_name := Some ''Pierwsza konwersacja'',
                               messages := Some [],
                               chatbot_personality := Some DEFAULT_PERSONALITY\<rparr>\<rparr>)
   \<and> ''Pierwsza konwersacja'' \<noteq> ''Konwersacja '' @ str_int 1"
  by (simp add: load_current_conversation_def ensure_db_structure_def current_file_def Let_def
      and_then_def write_conversation_file_def write_current_file_def dump_step_def
      load_conversation_to_state_def fresh_world_def)

text \<open>
  Claim C10. When the pointer file names an id whose record does not exist,
  \<^verbatim>\<open>load_current_conversation\<close> returns, and only the session has changed: it holds the
  default conversation with that id. The directory \<^verbatim>\<open>db\<close> is what it was, no write was
  attempted, and the record appears once \<^verbatim>\<open>save_conversation\<close> is called.
\<close>

theorem load_current_conversation_missing_record:
  assumes "current_file w = Some (Decoded (Some cid))"
    and "read_conversation_file w (Canon cid) = None"
  shows "load_current_conversation w =
           (Returned, w\<lparr>session := (session w)\<lparr>conversation_id := Some cid,
                                                conversation_name := Some (''Konwersacja '' @ str_int cid),
                                                messages := Some [],
                                                chatbot_personality := Some DEFAULT_PERSONALITY\<rparr>\<rparr>)
       \<and> db (snd (load_current_conversation w)) = db w
       \<and> write_fault (snd (load_current_conversation w)) = write_fault w
       \<and> (dirs_usable w \<and> write_fault w = None \<longrightarrow>
            read_conversation_file (snd (save_conversation (snd (load_current_conversation w)))) (Canon cid)
              = Some (Decoded (default_conversation cid)))"
proof -
  from assms(1) obtain d where d: "db w = Some d" "current_json d = Some (Decoded (Some cid))"
    by (auto simp add: current_file_def split: option.splits)
  have e: "ensure_db_structure w = w" by (simp add: ensure_db_structure_def d)
  let ?w' = "w\<lparr>session := (session w)\<lparr>conversation_id := Some cid,
                                        conversation_name := Some (''Konwersacja '' @ str_int cid),
                                        messages := Some [],
                                        chatbot_personality := Some DEFAULT_PERSONALITY\<rparr>\<rparr>"
  have r: "load_current_conversation w = (Returned, ?w')"
    using assms
    by (simp add: load_current_conversation_def e Let_def and_then_def load_default_conversation
        default_name_def)
  have sv: "read_conversation_file (snd (save_conversation ?w')) (Canon cid)
              = Some (Decoded (default_conversation cid))"
    if "dirs_usable w" "write_fault w = None"
  proof -
    from that(1) d obtain fs where fs: "conversations_dir d = Some fs"
      by (auto simp add: dirs_usable_def)
    have "write_conversation_file (Canon cid) (default_conversation cid) ?w' =
            (None, ?w'\<lparr>db := Some (d\<lparr>conversations_dir := Some (AList.update (Canon cid) (Decoded (default_conversation cid)) fs)\<rparr>)\<rparr>)"
      by (rule write_conversation_file_ok) (simp_all add: d fs that)
    then show ?thesis
      by (simp add: save_conversation_def active_id_def active_snapshot_def Let_def and_then_def
          default_conversation_def default_name_def read_conversation_file_def
          conversation_files_def read_after_update)
  qed
  show ?thesis using sv by (simp add: r)
qed

theorem load_current_conversation_missing_record_witness:
  "current_file dangling_world = Some (Decoded (Some 5))
   \<and> read_conversation_file dangling_world (Canon 5) = None
   \<and> load_current_conversation dangling_world =
        (Returned, dangling_world\<lparr>session := fresh_session\<lparr>conversation_id := Some 5,
                                      conversation_name := Some ''Konwersacja 5'',
                                      messages := Some [],
                                      chatbot_personality := Some DEFAULT_PERSONALITY\<rparr>\<rparr>)
   \<and> db (snd (load_current_conversation dangling_world)) = db dangling_world
   \<and> read_conversation_file (snd (save_conversation (snd (load_current_conversation dangling_world))))
        (Canon 5) = Some (Decoded (default_conversation 5))"
proof -
  have h: "current_file dangling_world = Some (Decoded (Some 5))"
     "read_conversation_file dangling_world (Canon 5) = None"
    by (simp_all add: current_file_def read_conversation_file_def conversation_files_def
        dangling_world_def)
  have u: "dirs_usable dangling_world" "write_fault dangling_world = None"
    by (simp_all add: dirs_usable_def dangling_world_def)
  have s: "session dangling_world = fresh_session" by (simp add: dangling_world_def)
  from load_current_conversation_missing_record[OF h] show ?thesis
    using h u by (simp add: str_int_small s cong: conj_cong)
qed

text \<open>
  Claim C6. The pointer names conversation 1 and the file \<^verbatim>\<open>1.json\<close> is not valid
  JSON. \<^verbatim>\<open>load_current_conversation\<close> and \<^verbatim>\<open>switch_conversation(1)\<close> both end with
  \<^verbatim>\<open>JSONDecodeError\<close> raised to their caller, which does not catch it; the state is
  unchanged, so the next run raises again. (\<^verbatim>\<open>list_conversations\<close> catches the same
  error and skips the file.)
\<close>

theorem corrupt_record_raises:
  "load_current_conversation corrupt_world = (Raised JSONDecodeError, corrupt_world)
   \<and> switch_conversation 1 corrupt_world = (Raised JSONDecodeError, corrupt_world)"
  by (simp add: load_current_conversation_def switch_conversation_def ensure_db_structure_def
      corrupt_world_def current_file_def read_conversation_file_def conversation_files_def)

section \<open>Saving a conversation\<close>

text \<open>
  Claim C5, as amended. In a store with its \<^verbatim>\<open>conversations\<close> directory,
  \<^verbatim>\<open>save_conversation\<close> writes the record of the active conversation over any record
  with the same id when the write completes, and leaves the other records, the pointer
  and the session as they were. It writes in place: when the write fails partway,
  \<^verbatim>\<open>OSError\<close> is raised and the file of the record is left truncated, its previous
  content lost: text that is not valid JSON, or, when the write was cut inside a character
  outside ASCII of the conversation, bytes that are not even text. In both cases the file
  is not a record any more.
\<close>

theorem save_conversation_in_place:
  assumes "db w = Some d" "conversations_dir d = Some fs"
  shows "((\<forall>ct. write_fault w \<noteq> Some (0, ct)) \<longrightarrow>
            fst (save_conversation w) = Returned
          \<and> read_conversation_file (snd (save_conversation w)) (Canon (active_id (session w)))
              = Some (Decoded (active_snapshot (session w))))
       \<and> (write_fault w = Some (0, InsideText) \<longrightarrow>
            fst (save_conversation w) = Raised OSError
          \<and> read_conversation_file (snd (save_conversation w)) (Canon (active_id (session w)))
              = Some Malformed)
       \<and> (write_fault w = Some (0, InsideChar) \<longrightarrow>
            fst (save_conversation w) = Raised OSError
          \<and> read_conversation_file (snd (save_conversation w)) (Canon (active_id (session w)))
              = Some (if non_ascii_text (active_snapshot (session w)) then Undecodable else Malformed))
       \<and> ((\<exists>ct. write_fault w = Some (0, ct)) \<longrightarrow>
            (\<forall>c. read_conversation_file (snd (save_conversation w)) (Canon (active_id (session w)))
                   \<noteq> Some (Decoded c)))
       \<and> (\<forall>k. k \<noteq> Canon (active_id (session w)) \<longrightarrow>
            read_conversation_file (snd (save_conversation w)) k = read_conversation_file w k)
       \<and> current_file (snd (save_conversation w)) = current_file w
       \<and> session (snd (save_conversation w)) = session w"
proof -
  obtain ct w1 where s: "dump_step w = (ct, w1)" by (cases "dump_step w")
  have w1: "session w1 = session w" "db w1 = db w"
    using s dump_step_obs[of w] by simp_all
  have c: "ct = (case write_fault w of Some (0, c) \<Rightarrow> Some c | _ \<Rightarrow> None)"
    using s by (auto simp add: dump_step_def split: option.splits prod.splits nat.splits)
  show ?thesis
  proof (cases ct)
    case None
    with c have nf: "\<forall>ct. write_fault w \<noteq> Some (0, ct)"
      by (auto split: option.splits prod.splits nat.splits)
    show ?thesis
      using assms s None nf w1
      by (simp add: save_conversation_def write_conversation_file_def and_then_def
        Let_def read_conversation_file_def conversation_files_def current_file_def
        read_after_update)
  next
    case (Some x)
    with c have f: "write_fault w = Some (0, x)"
      by (auto split: option.splits prod.splits nat.splits)
    show ?thesis
      using assms s Some f w1
      by (cases x)
         (simp_all add: save_conversation_def write_conversation_file_def and_then_def
        Let_def read_conversation_file_def conversation_files_def current_file_def
        read_after_update truncated_def)
  qed
qed

theorem save_conversation_in_place_witness:
  "read_conversation_file (snd (save_conversation custom_world)) (Canon 1)
     = Some (Decoded (active_snapshot custom_session))
   \<and> fst (save_conversation custom_world) = Returned
   \<and> write_fault failing_world = Some (0, InsideText)
   \<and> fst (save_conversation failing_world) = Raised OSError
   \<and> read_conversation_file (snd (save_conversation failing_world)) (Canon 1) = Some Malformed
   \<and> current_file (snd (save_conversation failing_world)) = Some (Decoded (Some 1))
   \<and> write_fault cut_world = Some (0, InsideChar)
   \<and> fst (save_conversation cut_world) = Raised OSError
   \<and> read_conversation_file (snd (save_conversation cut_world)) (Canon 2) = Some Undecodable
   \<and> read_conversation_file (snd (save_conversation cut_world)) (Canon 3)
       = Some (Decoded (default_conversation 3))"
proof -
  have a: "db custom_world = Some \<lparr>current_json = Some (Decoded (Some 1)),
                  conversations_dir = Some [(Canon 1, Decoded custom_conversation)]\<rparr>"
    "db failing_world = Some \<lparr>current_json = Some (Decoded (Some 1)),
                  conversations_dir = Some [(Canon 1, Decoded custom_conversation)]\<rparr>"
    "db cut_world = Some \<lparr>current_json = Some (Decoded (Some 2)),
                  conversations_dir = Some [(Canon 1, Decoded (default_conversation 1)),
                                            (Canon 2, Decoded (default_conversation 2)),
                                            (Canon 3, Decoded (default_conversation 3))]\<rparr>"
    by (simp_all add: custom_world_def failing_world_def cut_world_def three_world_def)
  have s: "session custom_world = custom_session" "session failing_world = custom_session"
    "write_fault custom_world = None" "write_fault failing_world = Some (0, InsideText)"
    "active_id custom_session = 1"
    "current_file failing_world = Some (Decoded (Some 1))"
    "write_fault cut_world = Some (0, InsideChar)"
    "active_id (session cut_world) = 2"
    "active_snapshot (session cut_world) = default_conversation 2"
    "read_conversation_file cut_world (Canon 3) = Some (Decoded (default_conversation 3))"
    by (simp_all add: custom_world_def failing_world_def active_id_def custom_session_def
        current_file_def cut_world_def three_world_def active_snapshot_def
        default_conversation_def read_conversation_file_def conversation_files_def)
  from save_conversation_in_place[OF a(1)] save_conversation_in_place[OF a(2)]
    save_conversation_in_place[OF a(3)]
  show ?thesis by (simp add: s non_ascii_text_default)
qed

text \<open>The active conversation is saved on a disk whose next write fails: its record was
  valid before and is not valid JSON afterwards.\<close>

theorem save_conversation_partial_write_counterexample:
  "read_conversation_file failing_world (Canon 1) = Some (Decoded custom_conversation)
   \<and> save_conversation failing_world =
       (Raised OSError,
        \<lparr>db = Some \<lparr>current_json = Some (Decoded (Some 1)),
                     conversations_dir = Some [(Canon 1, Malformed)]\<rparr>,
         write_fault = None, session = custom_session\<rparr>)
   \<and> read_conversation_file (snd (save_conversation failing_world)) (Canon 1) = Some Malformed"
  by (simp add: failing_world_def save_conversation_def write_conversation_file_def dump_step_def
      and_then_def Let_def active_id_def custom_session_def read_conversation_file_def
      conversation_files_def truncated_def)


end
